theory Spec2Isabelle
  imports Complex_Main
begin

section \<open>Strings and the platform's base64 decoder\<close>

text \<open>
  The worker is TypeScript on the Workers runtime. A JavaScript string is modelled as a
  \<open>string\<close> whose characters are the code units 0..255; a binary string (the result of
  \<open>atob\<close>) is the same type, one character per byte. Code units above 255 are outside
  the model: on them \<open>btoa\<close> and \<open>encodeURIComponent\<close> can throw, inside the \<open>try\<close>
  block, where the catch-all answers with its error redirect.

  \<open>atob\<close> is the platform's forgiving-base64 decode: ASCII whitespace is dropped, one or
  two trailing \<open>=\<close> are removed when the length is a multiple of four, a length of
  1 modulo 4 or any character outside the base64 alphabet is a failure (the
  InvalidCharacterError), and the 6-bit values are regrouped into bytes, the unused low
  bits of a final group of two or three characters being discarded.
\<close>

definition is_ascii_whitespace :: "char \<Rightarrow> bool" where
  "is_ascii_whitespace c \<longleftrightarrow>
     c = CHR 0x09 \<or> c = CHR 0x0A \<or> c = CHR 0x0C \<or> c = CHR 0x0D \<or> c = CHR 0x20"

definition base64_value :: "char \<Rightarrow> nat option" where
  "base64_value c =
     (let n = (of_char c :: nat) in
      if 65 \<le> n \<and> n \<le> 90 then Some (n - 65)
      else if 97 \<le> n \<and> n \<le> 122 then Some (n - 71)
      else if 48 \<le> n \<and> n \<le> 57 then Some (n + 4)
      else if n = 43 then Some 62
      else if n = 47 then Some 63
      else None)"

definition strip_padding :: "string \<Rightarrow> string" where
  "strip_padding d =
     (case rev d of
        c1 # c2 # r \<Rightarrow>
          if c1 = CHR ''='' \<and> c2 = CHR ''='' then rev r
          else if c1 = CHR ''='' then rev (c2 # r)
          else d
      | [c1] \<Rightarrow> if c1 = CHR ''='' then [] else d
      | [] \<Rightarrow> d)"

fun decode_groups :: "nat list \<Rightarrow> string" where
  "decode_groups (a # b # c # d # rest) =
     char_of (a * 4 + b div 16) # char_of ((b mod 16) * 16 + c div 4)
       # char_of ((c mod 4) * 64 + d) # decode_groups rest"
| "decode_groups [a, b, c] =
     [char_of (a * 4 + b div 16), char_of ((b mod 16) * 16 + c div 4)]"
| "decode_groups [a, b] = [char_of (a * 4 + b div 16)]"
| "decode_groups _ = []"

definition atob :: "string \<Rightarrow> string option" where
  "atob data =
     (let d1 = filter (\<lambda>c. \<not> is_ascii_whitespace c) data;
          d2 = (if length d1 mod 4 = 0 then strip_padding d1 else d1)
      in if length d2 mod 4 = 1 then None
         else (case those (map base64_value d2) of
                 None \<Rightarrow> None
               | Some vs \<Rightarrow> Some (decode_groups vs)))"

text \<open>
  \<open>s.replace(/-/g, '+').replace(/_/g, '/')\<close> and the loop
  \<open>while (s.length % 4) s += '='\<close> of \<open>safeBase64UrlDecode\<close> (and of the signature
  decoding, which repeats them).
\<close>

definition replace_all :: "char \<Rightarrow> char \<Rightarrow> string \<Rightarrow> string" where
  "replace_all x y s = map (\<lambda>c. if c = x then y else c) s"

definition to_base64 :: "string \<Rightarrow> string" where
  "to_base64 s = replace_all (CHR ''_'') (CHR ''/'') (replace_all (CHR ''-'') (CHR ''+'') s)"

function pad_loop :: "string \<Rightarrow> string" where
  "pad_loop base64 = (if length base64 mod 4 \<noteq> 0 then pad_loop (base64 @ ''='') else base64)"
  by pat_completeness auto
termination
proof (relation "measure (\<lambda>s. (4 - length s mod 4) mod 4)")
  show "wf (measure (\<lambda>s::string. (4 - length s mod 4) mod 4))" by simp
next
  fix base64 :: string
  assume h: "length base64 mod 4 \<noteq> 0"
  have "length base64 mod 4 < 4" by simp
  then consider "length base64 mod 4 = 1" | "length base64 mod 4 = 2" | "length base64 mod 4 = 3"
    using h by linarith
  then have "(4 - Suc (length base64) mod 4) mod 4 < (4 - length base64 mod 4) mod 4"
    by cases (simp_all add: mod_Suc)
  then show "(base64 @ ''='', base64) \<in> measure (\<lambda>s. (4 - length s mod 4) mod 4)"
    by simp
qed

declare pad_loop.simps [simp del]


section \<open>Values thrown, JSON values and their JavaScript operations\<close>

text \<open>
  A thrown value is an \<open>Error\<close> instance with its message, or something else; the
  handler's catch blocks read it with \<open>error instanceof Error ? error.message : ...\<close>.
\<close>

datatype thrown = Error string | NonError

definition then_do :: "thrown + 'a \<Rightarrow> ('a \<Rightarrow> thrown + 'b) \<Rightarrow> thrown + 'b" where
  "then_do x f = (case x of Inl e \<Rightarrow> Inl e | Inr v \<Rightarrow> f v)"

text \<open>
  What \<open>JSON.parse\<close> returns. A number is the double it denotes: a finite rational
  (both zeros are \<open>Finite 0\<close>) or an infinity (\<open>1e999\<close>); NaN never comes out of JSON.
  An object keeps its members in source order, a later member of the same name
  replacing an earlier one when it is read. A JavaScript value that may also be
  \<open>undefined\<close> is a \<open>json option\<close>.
\<close>

datatype jsnumber = Finite rat | PosInfinity | NegInfinity

datatype json =
    JNull
  | JBool bool
  | JNumber jsnumber
  | JString string
  | JArray "json list"
  | JObject "(string \<times> json) list"

fun truthy :: "json option \<Rightarrow> bool" where
  "truthy None = False"
| "truthy (Some JNull) = False"
| "truthy (Some (JBool b)) = b"
| "truthy (Some (JNumber n)) = (n \<noteq> Finite 0)"
| "truthy (Some (JString s)) = (s \<noteq> [])"
| "truthy (Some (JArray xs)) = True"
| "truthy (Some (JObject kvs)) = True"

text \<open>
  \<open>a === b\<close> for two values that come from two different \<open>JSON.parse\<close> calls:
  arrays and objects are compared by reference and are never equal.
\<close>

fun strict_equal :: "json option \<Rightarrow> json option \<Rightarrow> bool" where
  "strict_equal None None = True"
| "strict_equal (Some JNull) (Some JNull) = True"
| "strict_equal (Some (JBool a)) (Some (JBool b)) = (a = b)"
| "strict_equal (Some (JNumber a)) (Some (JNumber b)) = (a = b)"
| "strict_equal (Some (JString a)) (Some (JString b)) = (a = b)"
| "strict_equal _ _ = False"

text \<open>The string a value is, if it is one (\<open>typeof v === "string"\<close>).\<close>

fun as_string :: "json option \<Rightarrow> string option" where
  "as_string (Some (JString s)) = Some s"
| "as_string v = None"

section \<open>URLs, percent-encoding and responses\<close>

text \<open>
  The URL object of the platform. \<open>url_base\<close> is the serialisation of scheme,
  authority and path; \<open>url_search_params\<close> is the list its \<open>searchParams\<close> object
  holds (the platform parses it from the query when the URL is created).
\<close>

record url =
  url_base :: string
  url_query :: "string option"
  url_search_params :: "(string \<times> string) list"
  url_fragment :: "string option"

definition href :: "url \<Rightarrow> string" where
  "href u =
     url_base u
     @ (case url_query u of None \<Rightarrow> [] | Some q \<Rightarrow> CHR ''?'' # q)
     @ (case url_fragment u of None \<Rightarrow> [] | Some f \<Rightarrow> CHR ''#'' # f)"

definition hex_digit :: "nat \<Rightarrow> char" where
  "hex_digit n = (if n < 10 then char_of (48 + n) else char_of (55 + n))"

definition percent_byte :: "nat \<Rightarrow> string" where
  "percent_byte b = [CHR ''%'', hex_digit (b div 16), hex_digit (b mod 16)]"

definition utf8_char :: "char \<Rightarrow> nat list" where
  "utf8_char c =
     (let n = (of_char c :: nat) in
      if n < 128 then [n] else [192 + n div 64, 128 + n mod 64])"

definition utf8_encode :: "string \<Rightarrow> string" where
  "utf8_encode s = map char_of (concat (map utf8_char s))"

definition is_alnum :: "char \<Rightarrow> bool" where
  "is_alnum c \<longleftrightarrow>
     (let n = (of_char c :: nat) in
      (48 \<le> n \<and> n \<le> 57) \<or> (65 \<le> n \<and> n \<le> 90) \<or> (97 \<le> n \<and> n \<le> 122))"

definition percent_encode_char :: "char \<Rightarrow> string" where
  "percent_encode_char c = concat (map percent_byte (utf8_char c))"

text \<open>
  The application/x-www-form-urlencoded serialiser behind \<open>searchParams.set\<close>: a space
  becomes \<open>+\<close>, alphanumerics and \<open>* - . _\<close> stay, every other byte is percent-encoded.
\<close>

definition form_encode :: "string \<Rightarrow> string" where
  "form_encode s =
     concat (map (\<lambda>c. if c = CHR '' '' then ''+''
                       else if is_alnum c \<or> c = CHR ''*'' \<or> c = CHR ''-'' \<or> c = CHR ''.'' \<or> c = CHR ''_''
                       then [c]
                       else percent_encode_char c) s)"

fun form_serialize :: "(string \<times> string) list \<Rightarrow> string" where
  "form_serialize [] = []"
| "form_serialize [(n, v)] = form_encode n @ ''='' @ form_encode v"
| "form_serialize ((n, v) # rest) = form_encode n @ ''='' @ form_encode v @ ''&'' @ form_serialize rest"

fun set_tuple :: "string \<Rightarrow> string \<Rightarrow> (string \<times> string) list \<Rightarrow> (string \<times> string) list" where
  "set_tuple name v [] = [(name, v)]"
| "set_tuple name v ((n, w) # rest) =
     (if n = name then (name, v) # filter (\<lambda>t. fst t \<noteq> name) rest
      else (n, w) # set_tuple name v rest)"

definition searchParams_set :: "url \<Rightarrow> string \<Rightarrow> string \<Rightarrow> url" where
  "searchParams_set u name v =
     (let l = set_tuple name v (url_search_params u);
          q = form_serialize l
      in u\<lparr>url_search_params := l, url_query := (if q = [] then None else Some q)\<rparr>)"

text \<open>
  The \<open>hash\<close> setter: the empty string clears the fragment; otherwise one leading \<open>#\<close>
  is dropped, tabs and newlines are removed, and the characters of the fragment
  percent-encode set (controls, space, the double quote, \<open><\<close>, \<open>>\<close>, the backquote, and everything
  above \<open>~\<close>) are percent-encoded.
\<close>

definition in_fragment_set :: "char \<Rightarrow> bool" where
  "in_fragment_set c \<longleftrightarrow>
     (let n = (of_char c :: nat) in
      n \<le> 32 \<or> n > 126 \<or> n = 34 \<or> n = 60 \<or> n = 62 \<or> n = 96)"

definition fragment_encode :: "string \<Rightarrow> string" where
  "fragment_encode s =
     concat (map (\<lambda>c. if in_fragment_set c then percent_encode_char c else [c])
               (filter (\<lambda>c. c \<noteq> CHR 0x09 \<and> c \<noteq> CHR 0x0A \<and> c \<noteq> CHR 0x0D) s))"

definition set_hash :: "url \<Rightarrow> string \<Rightarrow> url" where
  "set_hash u v =
     (if v = [] then u\<lparr>url_fragment := None\<rparr>
      else u\<lparr>url_fragment :=
               Some (fragment_encode (case v of c # cs \<Rightarrow> if c = CHR ''#'' then cs else v | [] \<Rightarrow> v))\<rparr>)"

text \<open>
  \<open>encodeURIComponent\<close>: alphanumerics and \<open>- _ . ! ~ * ' ( )\<close> stay, every other
  character is percent-encoded in UTF-8.
\<close>

definition encodeURIComponent :: "string \<Rightarrow> string" where
  "encodeURIComponent s =
     concat (map (\<lambda>c. if is_alnum c \<or> c = CHR ''-'' \<or> c = CHR ''_'' \<or> c = CHR ''.''
                          \<or> c = CHR ''!'' \<or> c = CHR ''~'' \<or> c = CHR ''*'' \<or> c = CHR 0x27
                          \<or> c = CHR ''('' \<or> c = CHR '')''
                       then [c]
                       else percent_encode_char c) s)"

text \<open>\<open>btoa\<close>: standard base64 with padding.\<close>

definition base64_char :: "nat \<Rightarrow> char" where
  "base64_char n =
     (if n < 26 then char_of (n + 65)
      else if n < 52 then char_of (n + 71)
      else if n < 62 then char_of (n - 4)
      else if n = 62 then CHR ''+''
      else CHR ''/'')"

fun encode_groups :: "string \<Rightarrow> nat list" where
  "encode_groups (x # y # z # rest) =
     (of_char x div 4) # ((of_char x mod 4) * 16 + of_char y div 16)
       # ((of_char y mod 16) * 4 + of_char z div 64) # (of_char z mod 64) # encode_groups rest"
| "encode_groups [x, y] =
     [of_char x div 4, (of_char x mod 4) * 16 + of_char y div 16, (of_char y mod 16) * 4]"
| "encode_groups [x] = [of_char x div 4, (of_char x mod 4) * 16]"
| "encode_groups [] = []"

definition btoa :: "string \<Rightarrow> string" where
  "btoa s = map base64_char (encode_groups s) @ replicate ((3 - length s mod 3) mod 3) (CHR ''='')"

text \<open>The template literal \<open>${n}\<close> of a status code: its decimal digits.\<close>

fun decimal :: "nat \<Rightarrow> string" where
  "decimal n = (if n < 10 then [char_of (48 + n)] else decimal (n div 10) @ [char_of (48 + n mod 10)])"

declare decimal.simps [simp del]

text \<open>
  A response of the worker: the status, the headers the handler sets, the body.
  \<open>Response.redirect(url, 302)\<close> carries the target in \<open>Location\<close>.
\<close>

record response =
  resp_status :: nat
  resp_headers :: "(string \<times> string) list"
  resp_body :: string

definition Response_redirect :: "string \<Rightarrow> response" where
  "Response_redirect location =
     \<lparr>resp_status = 302, resp_headers = [(''Location'', location)], resp_body = []\<rparr>"

section \<open>The runtime: URL parser, JSON parser, network and crypto\<close>

text \<open>
  Everything the handler calls outside its own code, as one record, so that a theorem
  about the handler holds for every behaviour of the platform and of the provider:
  \<open>new URL(s)\<close>, \<open>JSON.parse\<close>, the global \<open>fetch\<close> (which may reject),
  \<open>crypto.subtle.importKey\<close> and \<open>crypto.subtle.verify\<close> for RSASSA-PKCS1-v1_5 with
  SHA-256, the exception \<open>atob\<close> throws, and the TypeError of a property read on
  \<open>null\<close> or of a call of something that is no function (named by the expression).
\<close>

record fetch_request =
  req_method :: string
  req_url :: string
  req_headers :: "(string \<times> string) list"
  req_body :: "string option"

record fetch_response =
  fr_status :: nat
  fr_text :: "thrown + string"

record 'k runtime =
  new_URL :: "string \<Rightarrow> thrown + url"
  JSON_parse :: "string \<Rightarrow> thrown + json"
  fetch :: "fetch_request \<Rightarrow> thrown + fetch_response"
  importKey :: "json \<Rightarrow> thrown + 'k"
  verify :: "'k \<Rightarrow> string \<Rightarrow> string \<Rightarrow> thrown + bool"
  atob_error :: thrown
  type_error :: "string \<Rightarrow> thrown"

definition fr_ok :: "fetch_response \<Rightarrow> bool" where
  "fr_ok r \<longleftrightarrow> 200 \<le> fr_status r \<and> fr_status r \<le> 299"

definition fr_json :: "'k runtime \<Rightarrow> fetch_response \<Rightarrow> thrown + json" where
  "fr_json rt r = then_do (fr_text r) (JSON_parse rt)"

text \<open>
  \<open>v.name\<close> for a parsed JSON value \<open>v\<close> and one of the names \<open>access_token\<close>,
  \<open>kid\<close>, \<open>keys\<close>: a TypeError on \<open>null\<close>, the last member of that name of an
  object, \<open>undefined\<close> otherwise (on an array \<open>keys\<close> is a method, which
  \<open>Array.isArray\<close> rejects as it rejects \<open>undefined\<close>).
\<close>

definition property :: "'k runtime \<Rightarrow> json \<Rightarrow> string \<Rightarrow> thrown + json option" where
  "property rt v name =
     (case v of
        JNull \<Rightarrow> Inl (type_error rt name)
      | JObject kvs \<Rightarrow> Inr (map_of (rev kvs) name)
      | _ \<Rightarrow> Inr None)"

section \<open>The worker\<close>

text \<open>
  The bindings of the worker. An unset variable and an empty one are both falsy, and
  the handler only tests \<open>!env.X\<close>: both are written as the empty string.
\<close>

record env =
  EPIC_CLIENT_ID :: string
  EPIC_CLIENT_SECRET :: string
  REDIRECT_URI :: string
  FRONTEND_URL :: string

text \<open>
  The incoming request, as \<open>new URL(request.url)\<close> reads it: the path and the list of
  query parameters. This is the first statement of the handler; the URL of a request
  the runtime delivers always parses.
\<close>

record request =
  pathname :: string
  searchParams :: "(string \<times> string) list"

text \<open>
  The three lines every failure branch repeats:
  \<open>new URL(FRONTEND_URL)\<close>, \<open>searchParams.set("epic_login_error", reason)\<close>,
  \<open>Response.redirect(errorRedirect.toString(), 302)\<close>.
\<close>

definition error_redirect :: "'k runtime \<Rightarrow> string \<Rightarrow> string \<Rightarrow> thrown + response" where
  "error_redirect rt frontend reason =
     then_do (new_URL rt frontend)
       (\<lambda>errorRedirect.
          Inr (Response_redirect (href (searchParams_set errorRedirect ''epic_login_error'' reason))))"

definition safeBase64UrlDecode :: "'k runtime \<Rightarrow> string \<Rightarrow> thrown + string" where
  "safeBase64UrlDecode rt base64UrlStr =
     (case atob (pad_loop (to_base64 base64UrlStr)) of
        Some decoded \<Rightarrow> Inr decoded
      | None \<Rightarrow>
          (case atob_error rt of
             Error message \<Rightarrow> Inl (Error (''Invalid base64url data: '' @ message))
           | NonError \<Rightarrow> Inl (Error ''Invalid base64url data: unknown error'')))"

fun split_on :: "char \<Rightarrow> string \<Rightarrow> string list" where
  "split_on sep [] = [[]]"
| "split_on sep (c # cs) =
     (if c = sep then [] # split_on sep cs
      else (case split_on sep cs of p # ps \<Rightarrow> (c # p) # ps | [] \<Rightarrow> [[c]]))"

text \<open>\<open>keys.find((key) => key.kid === kid)\<close>.\<close>

fun find_key :: "'k runtime \<Rightarrow> json option \<Rightarrow> json list \<Rightarrow> thrown + json option" where
  "find_key rt kid [] = Inr None"
| "find_key rt kid (key # keys) =
     (case property rt key ''kid'' of
        Inl e \<Rightarrow> Inl e
      | Inr k \<Rightarrow> if strict_equal k kid then Inr (Some key) else find_key rt kid keys)"

text \<open>
  \<open>typeof jwks !== "object" || jwks === null || !Array.isArray(jwks.keys)\<close>: the
  array of keys when the test lets the document pass.
\<close>

definition jwks_keys :: "json \<Rightarrow> json list option" where
  "jwks_keys jwks =
     (case jwks of
        JObject kvs \<Rightarrow> (case map_of (rev kvs) ''keys'' of Some (JArray ks) \<Rightarrow> Some ks | _ \<Rightarrow> None)
      | _ \<Rightarrow> None)"

definition token_request :: "string \<Rightarrow> string \<Rightarrow> string \<Rightarrow> string \<Rightarrow> fetch_request" where
  "token_request client_id client_secret redirect_uri code =
     \<lparr>req_method = ''POST'',
      req_url = ''https://api.epicgames.dev/epic/oauth/v1/token'',
      req_headers =
        [(''Authorization'', ''Basic '' @ btoa (client_id @ '':'' @ client_secret)),
         (''Content-Type'', ''application/x-www-form-urlencoded'')],
      req_body =
        Some (''grant_type=authorization_code&code='' @ code @ ''&redirect_uri=''
              @ encodeURIComponent redirect_uri)\<rparr>"

definition jwks_request :: fetch_request where
  "jwks_request =
     \<lparr>req_method = ''GET'',
      req_url = ''https://api.epicgames.dev/epic/oauth/v1/.well-known/jwks.json'',
      req_headers = [],
      req_body = None\<rparr>"

text \<open>
  \<open>JSON.parse(safeBase64UrlDecode(headerB64))\<close> followed by \<open>headerJson.kid\<close>, and
  \<open>JSON.parse(safeBase64UrlDecode(payloadB64))\<close>.
\<close>

definition header_kid :: "'k runtime \<Rightarrow> string \<Rightarrow> thrown + json option" where
  "header_kid rt headerB64 =
     then_do (safeBase64UrlDecode rt headerB64) (\<lambda>headerText.
       then_do (JSON_parse rt headerText) (\<lambda>headerJson. property rt headerJson ''kid''))"

definition payload_json :: "'k runtime \<Rightarrow> string \<Rightarrow> thrown + json" where
  "payload_json rt payloadB64 = then_do (safeBase64UrlDecode rt payloadB64) (JSON_parse rt)"

text \<open>
  The branch \<open>if (!jwk)\<close> first logs a template literal with \<open>${kid}\<close>, which converts
  the header's \<open>kid\<close> to a string. For a value out of \<open>JSON.parse\<close> the conversion
  throws a TypeError exactly when it meets an object with a member \<open>toString\<close> of its
  own (no JSON value is callable): in the value itself, or in an element of an array,
  which is joined element by element.
\<close>

fun to_string_ok :: "json \<Rightarrow> bool" where
  "to_string_ok (JArray xs) = list_all to_string_ok xs"
| "to_string_ok (JObject kvs) = (map_of (rev kvs) ''toString'' = None)"
| "to_string_ok v = True"

definition key_not_found :: "'k runtime \<Rightarrow> string \<Rightarrow> json option \<Rightarrow> thrown + response" where
  "key_not_found rt frontend kid =
     (case kid of
        None \<Rightarrow> error_redirect rt frontend ''Public key not found''
      | Some v \<Rightarrow>
          if to_string_ok v then error_redirect rt frontend ''Public key not found''
          else Inl (type_error rt ''String(kid)''))"

text \<open>
  From the answer of the key-set request to the final redirect (the part of the
  \<open>try\<close> block after \<open>await fetch(".../jwks.json")\<close>). No request is sent here.
\<close>

definition verify_with_jwks ::
  "'k runtime \<Rightarrow> string \<Rightarrow> string \<Rightarrow> string \<Rightarrow> string \<Rightarrow> string \<Rightarrow> json option
     \<Rightarrow> fetch_response \<Rightarrow> thrown + response" where
  "verify_with_jwks rt frontend jwtToken headerB64 payloadB64 signatureB64 kid jwksResp =
     (if \<not> fr_ok jwksResp then error_redirect rt frontend ''Failed to fetch JWKS''
      else then_do (fr_json rt jwksResp) (\<lambda>jwks.
        case jwks_keys jwks of
          None \<Rightarrow> error_redirect rt frontend ''Invalid JWKS format''
        | Some keys \<Rightarrow> then_do (find_key rt kid keys) (\<lambda>found.
            case found of
              None \<Rightarrow> key_not_found rt frontend kid
            | Some jwk \<Rightarrow>
                if \<not> truthy (Some jwk) then key_not_found rt frontend kid
                else then_do (importKey rt jwk) (\<lambda>cryptoKey.
                  case atob (pad_loop (to_base64 signatureB64)) of
                    None \<Rightarrow> Inl (atob_error rt)
                  | Some signatureBytes \<Rightarrow>
                      then_do (verify rt cryptoKey signatureBytes
                                 (utf8_encode (headerB64 @ ''.'' @ payloadB64))) (\<lambda>isValid.
                        if \<not> isValid then error_redirect rt frontend ''JWT verification failed''
                        else then_do (payload_json rt payloadB64) (\<lambda>payloadJson.
                          then_do (new_URL rt frontend) (\<lambda>redirectUrl.
                            Inr (Response_redirect
                                   (href (set_hash redirectUrl (''epic_jwt='' @ jwtToken)))))))))))"

text \<open>
  From the token string to the response: the split, the header, the key-set request.
  The result carries the requests sent on the way.
\<close>

definition validate_token ::
  "'k runtime \<Rightarrow> string \<Rightarrow> string \<Rightarrow> fetch_request list \<times> (thrown + response)" where
  "validate_token rt frontend jwtToken =
     (case split_on (CHR ''.'') jwtToken of
        [headerB64, payloadB64, signatureB64] \<Rightarrow>
          (case header_kid rt headerB64 of
             Inl e \<Rightarrow> ([], Inl e)
           | Inr kid \<Rightarrow>
               ([jwks_request],
                then_do (fetch rt jwks_request)
                  (verify_with_jwks rt frontend jwtToken headerB64 payloadB64 signatureB64 kid)))
      | _ \<Rightarrow> ([], error_redirect rt frontend ''Invalid JWT format''))"

text \<open>The body of the \<open>try\<close> block: the token exchange and what follows it.\<close>

definition try_block ::
  "'k runtime \<Rightarrow> env \<Rightarrow> string \<Rightarrow> fetch_request list \<times> (thrown + response)" where
  "try_block rt e code =
     (let post = token_request (EPIC_CLIENT_ID e) (EPIC_CLIENT_SECRET e) (REDIRECT_URI e) code in
      case fetch rt post of
        Inl err \<Rightarrow> ([post], Inl err)
      | Inr tokenResp \<Rightarrow>
          if \<not> fr_ok tokenResp then
            ([post],
             then_do (fr_text tokenResp) (\<lambda>errorText.
               error_redirect rt (FRONTEND_URL e)
                 (''Token exchange failed: '' @ decimal (fr_status tokenResp))))
          else
            (case then_do (fr_json rt tokenResp) (\<lambda>tokenData.
                    property rt tokenData ''access_token'') of
               Inl err \<Rightarrow> ([post], Inl err)
             | Inr jwtToken \<Rightarrow>
                 if \<not> truthy jwtToken then
                   ([post], error_redirect rt (FRONTEND_URL e) ''Missing token in response'')
                 else
                   (case as_string jwtToken of
                      Some token \<Rightarrow>
                        (case validate_token rt (FRONTEND_URL e) token of
                           (sent, r) \<Rightarrow> (post # sent, r))
                    | None \<Rightarrow> ([post], Inl (type_error rt ''jwtToken.split'')))))"

text \<open>
  The callback route: the check of \<open>code\<close>, then the \<open>try\<close> block under its
  \<open>catch\<close>, whose own \<open>new URL(FRONTEND_URL)\<close> is not protected.
\<close>

definition callback :: "'k runtime \<Rightarrow> env \<Rightarrow> request \<Rightarrow> fetch_request list \<times> (thrown + response)" where
  "callback rt e request =
     (case map_of (searchParams request) ''code'' of
        None \<Rightarrow> ([], error_redirect rt (FRONTEND_URL e) ''Missing authorization code'')
      | Some code \<Rightarrow>
          if code = [] then ([], error_redirect rt (FRONTEND_URL e) ''Missing authorization code'')
          else
            (case try_block rt e code of
               (sent, Inr r) \<Rightarrow> (sent, Inr r)
             | (sent, Inl error) \<Rightarrow>
                 (sent,
                  error_redirect rt (FRONTEND_URL e)
                    (''Server error: ''
                     @ (case error of Error message \<Rightarrow> message | NonError \<Rightarrow> ''Unknown error'')))))"

text \<open>
  The handler \<open>fetch(request, env, ctx)\<close>: the requests it sends, in order, and the
  response it returns or the value it throws.
\<close>

definition worker_fetch :: "'k runtime \<Rightarrow> env \<Rightarrow> request \<Rightarrow> fetch_request list \<times> (thrown + response)" where
  "worker_fetch rt e request =
     (if EPIC_CLIENT_ID e = [] \<or> EPIC_CLIENT_SECRET e = [] then
        ([], Inr \<lparr>resp_status = 500, resp_headers = [],
                  resp_body = ''Server configuration error: Missing client credentials.''\<rparr>)
      else if REDIRECT_URI e = [] then
        ([], Inr \<lparr>resp_status = 500, resp_headers = [],
                  resp_body = ''Server configuration error: Missing redirect URI.''\<rparr>)
      else if FRONTEND_URL e = [] then
        ([], Inr \<lparr>resp_status = 500, resp_headers = [],
                  resp_body = ''Server configuration error: Missing frontend URL.''\<rparr>)
      else if pathname request = ''/'' then
        ([], Inr \<lparr>resp_status = 200, resp_headers = [(''Content-Type'', ''text/html'')],
                  resp_body = ''Ready to authenticate with Epic Games. Go to <a href='' @ [CHR 0x22]
                    @ ''/login'' @ [CHR 0x22] @ ''>/login</a>''\<rparr>)
      else if pathname request = ''/login'' then
        ([], then_do
               (new_URL rt
                  (''https://www.epicgames.com/id/authorize?client_id='' @ EPIC_CLIENT_ID e
                   @ ''&response_type=code&redirect_uri='' @ encodeURIComponent (REDIRECT_URI e)))
               (\<lambda>authUrl. Inr (Response_redirect (href authUrl))))
      else if pathname request = ''/callback'' then callback rt e request
      else ([], Inr \<lparr>resp_status = 404, resp_headers = [], resp_body = ''Not Found''\<rparr>))"

section \<open>The base64url encoding\<close>

text \<open>
  The base64url encoding of a byte string (RFC 4648, section 5, without padding, as the
  segments of a compact token are written): the encoder the decoder is measured against.
\<close>

definition base64url_char :: "nat \<Rightarrow> char" where
  "base64url_char n =
     (if n < 26 then char_of (n + 65)
      else if n < 52 then char_of (n + 71)
      else if n < 62 then char_of (n - 4)
      else if n = 62 then CHR ''-''
      else CHR ''_'')"

definition base64url_encode :: "string \<Rightarrow> string" where
  "base64url_encode b = map base64url_char (encode_groups b)"

section \<open>The provider's reading of the request body\<close>

text \<open>
  The token request declares \<open>Content-Type: application/x-www-form-urlencoded\<close>. The
  parser of that format, on bytes: the body is cut at every \<open>&\<close>, empty pieces are
  skipped, each piece is cut at its first \<open>=\<close>, \<open>+\<close> becomes a space and
  \<open>%XY\<close> the byte it names.
\<close>

definition hex_value :: "char \<Rightarrow> nat option" where
  "hex_value c =
     (let n = (of_char c :: nat) in
      if 48 \<le> n \<and> n \<le> 57 then Some (n - 48)
      else if 65 \<le> n \<and> n \<le> 70 then Some (n - 55)
      else if 97 \<le> n \<and> n \<le> 102 then Some (n - 87)
      else None)"

fun percent_decode :: "string \<Rightarrow> string" where
  "percent_decode (c # h # l # rest) =
     (if c = CHR ''%'' then
        (case hex_value h of
           Some a \<Rightarrow>
             (case hex_value l of
                Some b \<Rightarrow> char_of (a * 16 + b) # percent_decode rest
              | None \<Rightarrow> c # percent_decode (h # l # rest))
         | None \<Rightarrow> c # percent_decode (h # l # rest))
      else c # percent_decode (h # l # rest))"
| "percent_decode s = s"

definition form_decode :: "string \<Rightarrow> string" where
  "form_decode s = percent_decode (replace_all (CHR ''+'') (CHR '' '') s)"

definition form_parse_pair :: "string \<Rightarrow> string \<times> string" where
  "form_parse_pair piece =
     (let name = takeWhile (\<lambda>c. c \<noteq> CHR ''='') piece
      in (form_decode name, form_decode (drop (Suc (length name)) piece)))"

definition form_parse :: "string \<Rightarrow> (string \<times> string) list" where
  "form_parse s = map form_parse_pair (filter (\<lambda>piece. piece \<noteq> []) (split_on (CHR ''&'') s))"

section \<open>The conditions the specification speaks of\<close>

definition config_present :: "env \<Rightarrow> bool" where
  "config_present e \<longleftrightarrow>
     EPIC_CLIENT_ID e \<noteq> [] \<and> EPIC_CLIENT_SECRET e \<noteq> [] \<and> REDIRECT_URI e \<noteq> []
     \<and> FRONTEND_URL e \<noteq> []"

text \<open>
  The identity token the exchange delivers for a code: the answer has a 2xx status,
  its body is JSON, and \<open>access_token\<close> is a non-empty string.
\<close>

definition exchanged_token :: "'k runtime \<Rightarrow> env \<Rightarrow> string \<Rightarrow> string option" where
  "exchanged_token rt e code =
     (case fetch rt (token_request (EPIC_CLIENT_ID e) (EPIC_CLIENT_SECRET e) (REDIRECT_URI e) code) of
        Inl err \<Rightarrow> None
      | Inr tokenResp \<Rightarrow>
          if \<not> fr_ok tokenResp then None
          else (case then_do (fr_json rt tokenResp) (\<lambda>tokenData.
                       property rt tokenData ''access_token'') of
                  Inl err \<Rightarrow> None
                | Inr jwtToken \<Rightarrow>
                    (case as_string jwtToken of
                       None \<Rightarrow> None
                     | Some token \<Rightarrow> if token = [] then None else Some token)))"

text \<open>The key set of the current fetch: a 2xx answer whose JSON has an array \<open>keys\<close>.\<close>

definition fetched_keys :: "'k runtime \<Rightarrow> json list option" where
  "fetched_keys rt =
     (case fetch rt jwks_request of
        Inl err \<Rightarrow> None
      | Inr jwksResp \<Rightarrow>
          if \<not> fr_ok jwksResp then None
          else (case fr_json rt jwksResp of Inl err \<Rightarrow> None | Inr jwks \<Rightarrow> jwks_keys jwks))"

text \<open>
  The signature segment of a token verifies against a key: the key imports, the
  segment decodes, and the signature is valid for \<open>header_segment.payload_segment\<close>.
\<close>

definition verifies_against :: "'k runtime \<Rightarrow> string \<Rightarrow> json \<Rightarrow> bool" where
  "verifies_against rt token jwk =
     (case split_on (CHR ''.'') token of
        [headerB64, payloadB64, signatureB64] \<Rightarrow>
          (case importKey rt jwk of
             Inl err \<Rightarrow> False
           | Inr cryptoKey \<Rightarrow>
               (case atob (pad_loop (to_base64 signatureB64)) of
                  None \<Rightarrow> False
                | Some signatureBytes \<Rightarrow>
                    verify rt cryptoKey signatureBytes (utf8_encode (headerB64 @ ''.'' @ payloadB64))
                    = Inr True))
      | _ \<Rightarrow> False)"

text \<open>
  The handler's own verification succeeds: the token has three segments, reading the
  header gives a \<open>kid\<close>, and the signature verifies against the truthy key that the
  handler's \<open>find\<close> returns on the fetched set.
\<close>

definition first_match_verifies :: "'k runtime \<Rightarrow> string \<Rightarrow> bool" where
  "first_match_verifies rt token =
     (case split_on (CHR ''.'') token of
        [headerB64, payloadB64, signatureB64] \<Rightarrow>
          (case header_kid rt headerB64 of
             Inl err \<Rightarrow> False
           | Inr kid \<Rightarrow>
               (case fetched_keys rt of
                  None \<Rightarrow> False
                | Some keys \<Rightarrow>
                    (case find_key rt kid keys of
                       Inl err \<Rightarrow> False
                     | Inr found \<Rightarrow>
                         (case found of
                            None \<Rightarrow> False
                          | Some jwk \<Rightarrow> truthy (Some jwk) \<and> verifies_against rt token jwk))))
      | _ \<Rightarrow> False)"




definition payload_readable :: "'k runtime \<Rightarrow> string \<Rightarrow> bool" where
  "payload_readable rt token =
     (case split_on (CHR ''.'') token of
        [headerB64, payloadB64, signatureB64] \<Rightarrow>
          (case payload_json rt payloadB64 of Inl err \<Rightarrow> False | Inr payloadJson \<Rightarrow> True)
      | _ \<Rightarrow> False)"

text \<open>
  A result that is not the success redirect: a thrown value, or the redirect to the
  client application with \<open>epic_login_error\<close> set to some reason.
\<close>

definition stopped :: "url \<Rightarrow> thrown + response \<Rightarrow> bool" where
  "stopped u r \<longleftrightarrow>
     (\<exists>e. r = Inl e)
     \<or> (\<exists>reason. r = Inr (Response_redirect (href (searchParams_set u ''epic_login_error'' reason))))"

section \<open>A concrete deployment\<close>

text \<open>
  The bindings of the repository's \<open>wrangler.toml\<close> with a client identifier and
  secret, and a runtime that answers as the platform and the provider would on the
  inputs used below: the token endpoint answers with a given status and the body
  \<open>{"access_token":"<token>"}\<close>, the key-set endpoint with \<open>{"keys":[...]}\<close> for a
  given list of keys, and a signature is valid exactly when it is the bytes \<open>sig\<close>
  under the key whose modulus is \<open>good\<close>, for one of the three signing inputs of the
  tokens below.
\<close>

definition demo_env :: env where
  "demo_env =
     \<lparr>EPIC_CLIENT_ID = ''client'',
      EPIC_CLIENT_SECRET = ''secret'',
      REDIRECT_URI = ''https://epic-eos-auth-worker.tpin.workers.dev/callback'',
      FRONTEND_URL = ''https://epic-auth-login-boilerplate.pages.dev/''\<rparr>"

definition demo_url :: url where
  "demo_url =
     \<lparr>url_base = ''https://epic-auth-login-boilerplate.pages.dev/'',
      url_query = None, url_search_params = [], url_fragment = None\<rparr>"

definition demo_token_body :: "string \<Rightarrow> string" where
  "demo_token_body token =
     ''{'' @ [CHR 0x22] @ ''access_token'' @ [CHR 0x22] @ '':'' @ [CHR 0x22] @ token @ [CHR 0x22] @ ''}''"

definition demo_header_text :: string where
  "demo_header_text =
     ''{'' @ [CHR 0x22] @ ''alg'' @ [CHR 0x22] @ '':'' @ [CHR 0x22] @ ''RS256'' @ [CHR 0x22] @ '',''
     @ [CHR 0x22] @ ''kid'' @ [CHR 0x22] @ '':'' @ [CHR 0x22] @ ''k1'' @ [CHR 0x22] @ ''}''"

definition demo_key :: "string \<Rightarrow> json" where
  "demo_key modulus = JObject [(''kty'', JString ''RSA''), (''kid'', JString ''k1''), (''n'', JString modulus)]"

definition demo_runtime :: "nat \<Rightarrow> string \<Rightarrow> json list \<Rightarrow> json runtime" where
  "demo_runtime token_status token keys =
     \<lparr>new_URL = (\<lambda>s. if s = ''https://epic-auth-login-boilerplate.pages.dev/'' then Inr demo_url
                      else Inl (Error ''Invalid URL'')),
      JSON_parse = (\<lambda>s. if s = demo_token_body token then Inr (JObject [(''access_token'', JString token)])
                         else if s = ''JWKS'' then Inr (JObject [(''keys'', JArray keys)])
                         else if s = demo_header_text
                              then Inr (JObject [(''alg'', JString ''RS256''), (''kid'', JString ''k1'')])
                         else if s = ''{}'' then Inr (JObject [])
                         else Inl (Error ''Unexpected token'')),
      fetch = (\<lambda>r. if req_method r = ''POST''
                    then Inr \<lparr>fr_status = token_status, fr_text = Inr (demo_token_body token)\<rparr>
                    else Inr \<lparr>fr_status = 200, fr_text = Inr ''JWKS''\<rparr>),
      importKey = (\<lambda>jwk. case jwk of JObject kvs \<Rightarrow> Inr jwk | _ \<Rightarrow> Inl (Error ''not a JWK'')),
      verify = (\<lambda>key signature d.
                  Inr (key = demo_key ''good'' \<and> signature = ''sig''
                       \<and> (d = ''eyJhbGciOiJSUzI1NiIsImtpZCI6ImsxIn0.e30''
                            \<or> d = ''eyJhbGciOiJSUzI1NiIsImtpZCI6ImsxIn0.bm90IGpzb24''
                            \<or> d = ''eyJhbGciOiJSUzI1NiIsImtpZCI6ImsxIn0.!''))),
      atob_error = Error ''Invalid character'',
      type_error = (\<lambda>name. Error (''Cannot read '' @ name))\<rparr>"

text \<open>
  Tokens: header \<open>{"alg":"RS256","kid":"k1"}\<close>, signature \<open>sig\<close>, and the payload
  \<open>{}\<close>, the payload \<open>not json\<close>, or a payload segment that is not base64.
\<close>

definition demo_token :: string where
  "demo_token = ''eyJhbGciOiJSUzI1NiIsImtpZCI6ImsxIn0.e30.c2ln''"

definition demo_token_text_payload :: string where
  "demo_token_text_payload = ''eyJhbGciOiJSUzI1NiIsImtpZCI6ImsxIn0.bm90IGpzb24.c2ln''"

definition demo_token_raw_payload :: string where
  "demo_token_raw_payload = ''eyJhbGciOiJSUzI1NiIsImtpZCI6ImsxIn0.!.c2ln''"





definition demo_callback :: "string \<Rightarrow> request" where
  "demo_callback code = \<lparr>pathname = ''/callback'', searchParams = [(''code'', code)]\<rparr>"

section \<open>The base64url decoder inverts the encoder\<close>

lemma byte_div16_div16: "(of_char y :: nat) div 16 div 16 = 0"
proof -
  have "(of_char y :: nat) div 16 div 16 = of_char y div 256" by (simp add: div_mult2_eq [symmetric])
  then show ?thesis by simp
qed

lemma byte_div16_mod16: "(of_char y :: nat) div 16 mod 16 = of_char y div 16"
proof -
  have "(of_char y :: nat) < 256" by simp
  then have "(of_char y :: nat) div 16 < 16" by (simp only: less_mult_imp_div_less) 
  then show ?thesis by simp
qed

lemma byte_div64_div4: "(of_char y :: nat) div 64 div 4 = 0"
proof -
  have "(of_char y :: nat) div 64 div 4 = of_char y div 256" by (simp add: div_mult2_eq [symmetric])
  then show ?thesis by simp
qed

lemma byte_div64_mod4: "(of_char y :: nat) div 64 mod 4 = of_char y div 64"
proof -
  have "(of_char y :: nat) < 256" by simp
  then have "(of_char y :: nat) div 64 < 4" by (simp only: less_mult_imp_div_less) 
  then show ?thesis by simp
qed

lemma decode_encode_groups: "decode_groups (encode_groups b) = b"
  by (induction b rule: encode_groups.induct) (simp_all add: byte_div16_div16 byte_div16_mod16 byte_div64_div4 byte_div64_mod4)

lemma sextet_bounds:
  "(of_char x :: nat) div 4 < 64"
  "(of_char x :: nat) mod 4 * 16 + of_char y div 16 < 64"
  "(of_char y :: nat) mod 16 * 4 + of_char z div 64 < 64"
  "(of_char y :: nat) mod 16 * 4 < 64"
  "(of_char x :: nat) mod 4 * 16 < 64"
proof -
  have x: "(of_char x :: nat) < 256" and y: "(of_char y :: nat) < 256" and z: "(of_char z :: nat) < 256"
    by simp_all
  show "(of_char x :: nat) div 4 < 64" using x by (simp only: less_mult_imp_div_less)
  have y16: "(of_char y :: nat) div 16 < 16" using y by (simp only: less_mult_imp_div_less)
  have z64: "(of_char z :: nat) div 64 < 4" using z by (simp only: less_mult_imp_div_less)
  have x4: "(of_char x :: nat) mod 4 < 4" by simp
  have ym: "(of_char y :: nat) mod 16 < 16" by simp
  show "(of_char x :: nat) mod 4 * 16 + of_char y div 16 < 64" using x4 y16 by linarith
  show "(of_char y :: nat) mod 16 * 4 + of_char z div 64 < 64" using ym z64 by linarith
  show "(of_char y :: nat) mod 16 * 4 < 64" using ym by linarith
  show "(of_char x :: nat) mod 4 * 16 < 64" using x4 by linarith
qed

lemma base64_value_url_char:
  "n < 64 \<Longrightarrow> base64_value (if base64url_char n = CHR ''-'' then CHR ''+'' else if base64url_char n = CHR ''_'' then CHR ''/'' else base64url_char n) = Some n"
  unfolding base64url_char_def base64_value_def
  by (auto simp: char_of_eq_iff take_bit_eq_mod Let_def)

lemma encode_groups_less: "v \<in> set (encode_groups b) \<Longrightarrow> v < 64"
  by (induction b arbitrary: v rule: encode_groups.induct) (auto simp: sextet_bounds)

lemma to_base64_url_char:
  "to_base64 (map base64url_char vs) =
     map (\<lambda>n. if base64url_char n = CHR ''-'' then CHR ''+''
               else if base64url_char n = CHR ''_'' then CHR ''/'' else base64url_char n) vs"
  by (induction vs) (auto simp: to_base64_def replace_all_def)

lemma those_values:
  "(\<And>v. v \<in> set vs \<Longrightarrow> v < 64) \<Longrightarrow> those (map base64_value (to_base64 (map base64url_char vs))) = Some vs"
  unfolding to_base64_url_char
  by (induction vs) (simp_all add: base64_value_url_char)

lemma length_encode_groups: "length (encode_groups b) mod 4 \<noteq> 1"
  by (induction b rule: encode_groups.induct) (simp_all add: mod_Suc)

lemma those_no_pad:
  "those (map base64_value s) = Some vs \<Longrightarrow> c \<in> set s \<Longrightarrow> c \<noteq> CHR ''='' \<and> \<not> is_ascii_whitespace c"
proof (induction s arbitrary: vs)
  case Nil
  then show ?case by simp
next
  case (Cons a s)
  from Cons.prems(1) obtain v vs' where a: "base64_value a = Some v" and r: "those (map base64_value s) = Some vs'"
    by (auto split: option.splits)
  have "a \<noteq> CHR ''='' \<and> \<not> is_ascii_whitespace a"
    using a by (auto simp: base64_value_def is_ascii_whitespace_def Let_def split: if_splits)
  with Cons.IH [OF r] Cons.prems(2) show ?case by auto
qed

lemma filter_ws: "those (map base64_value s) = Some vs \<Longrightarrow> filter (\<lambda>c. \<not> is_ascii_whitespace c) s = s"
  using those_no_pad by (simp add: filter_id_conv) 

lemma strip_padding_none: "those (map base64_value s) = Some vs \<Longrightarrow> strip_padding s = s"
proof (cases s rule: rev_cases)
  case Nil
  then show ?thesis by (simp add: strip_padding_def)
next
  case (snoc ys y)
  assume t: "those (map base64_value s) = Some vs"
  with snoc have "y \<noteq> CHR ''=''" using those_no_pad [OF t, of y] by simp
  with snoc show ?thesis by (cases "rev ys") (simp_all add: strip_padding_def)
qed

lemma strip_padding_one: "those (map base64_value s) = Some vs \<Longrightarrow> strip_padding (s @ ''='') = s"
proof (cases s rule: rev_cases)
  case Nil
  then show ?thesis by (simp add: strip_padding_def)
next
  case (snoc ys y)
  assume t: "those (map base64_value s) = Some vs"
  with snoc have "y \<noteq> CHR ''=''" using those_no_pad [OF t, of y] by simp
  with snoc show ?thesis by (simp add: strip_padding_def)
qed

lemma strip_padding_two: "strip_padding (s @ ''=='') = s"
  by (simp add: strip_padding_def)

lemma pad_loop_0: "length s mod 4 = 0 \<Longrightarrow> pad_loop s = s"
  by (subst pad_loop.simps) simp

lemma pad_loop_3: "length s mod 4 = 3 \<Longrightarrow> pad_loop s = s @ ''=''"
  by (subst pad_loop.simps) (simp add: pad_loop_0 mod_Suc)

lemma pad_loop_2: "length s mod 4 = 2 \<Longrightarrow> pad_loop s = s @ ''==''"
  by (subst pad_loop.simps) (simp add: pad_loop_3 mod_Suc)

lemma atob_pad_loop:
  assumes t: "those (map base64_value s) = Some vs" and l: "length s mod 4 \<noteq> 1"
  shows "atob (pad_loop s) = Some (decode_groups vs)"
proof -
  have "length s mod 4 < 4" by simp
  then consider "length s mod 4 = 0" | "length s mod 4 = 2" | "length s mod 4 = 3"
    using l by linarith
  then show ?thesis
  proof cases
    case 1
    then show ?thesis
      using t by (simp add: pad_loop_0 atob_def filter_ws [OF t] strip_padding_none [OF t])
  next
    case 2
    then have m: "length (s @ ''=='') mod 4 = 0" by (simp add: mod_Suc)
    have f: "filter (\<lambda>c. \<not> is_ascii_whitespace c) (s @ ''=='') = s @ ''==''"
      using filter_ws [OF t] by (simp add: is_ascii_whitespace_def)
    show ?thesis
      unfolding pad_loop_2 [OF 2] atob_def f Let_def using m 2 t
      by (simp only: strip_padding_two if_True) simp
  next
    case 3
    then have m: "length (s @ ''='') mod 4 = 0" by (simp add: mod_Suc)
    have f: "filter (\<lambda>c. \<not> is_ascii_whitespace c) (s @ ''='') = s @ ''=''"
      using filter_ws [OF t] by (simp add: is_ascii_whitespace_def)
    show ?thesis
      unfolding pad_loop_3 [OF 3] atob_def f Let_def using m 3 t
      by (simp only: strip_padding_one [OF t] if_True) simp
  qed
qed

lemma atob_base64url_encode: "atob (pad_loop (to_base64 (base64url_encode b))) = Some b"
proof -
  have t: "those (map base64_value (to_base64 (base64url_encode b))) = Some (encode_groups b)"
    unfolding base64url_encode_def by (rule those_values) (rule encode_groups_less)
  have l: "length (to_base64 (base64url_encode b)) mod 4 \<noteq> 1"
    using length_encode_groups [of b] by (simp add: to_base64_def replace_all_def base64url_encode_def)
  show ?thesis using atob_pad_loop [OF t l] by (simp add: decode_encode_groups)
qed

text \<open>
  Claim C7. For every byte string \<open>b\<close>, \<open>safeBase64UrlDecode\<close> applied to the base64url
  encoding of \<open>b\<close> returns \<open>b\<close>: the segments that need no, one or two padding
  characters are all decoded, \<open>-\<close> and \<open>_\<close> being replaced by \<open>+\<close> and \<open>/\<close> before
  \<open>atob\<close>. The same holds for the copy of the decoder that reads the signature.
\<close>

theorem base64url_roundtrip:
  "safeBase64UrlDecode rt (base64url_encode b) = Inr b
   \<and> atob (pad_loop (to_base64 (base64url_encode b))) = Some b"
  by (simp add: safeBase64UrlDecode_def atob_base64url_encode)


section \<open>The stages of the callback\<close>

lemma error_redirect_ok:
  "new_URL rt frontend = Inr u \<Longrightarrow>
   error_redirect rt frontend reason
     = Inr (Response_redirect (href (searchParams_set u ''epic_login_error'' reason)))"
  by (simp add: error_redirect_def then_do_def)

lemma fetched_keysD:
  assumes "fetched_keys rt = Some keys"
  shows "\<exists>jwksResp jwks. fetch rt jwks_request = Inr jwksResp \<and> fr_ok jwksResp
           \<and> fr_json rt jwksResp = Inr jwks \<and> jwks_keys jwks = Some keys"
proof -
  note d = assms [unfolded fetched_keys_def]
  obtain jwksResp where a: "fetch rt jwks_request = Inr jwksResp"
    using d by (cases "fetch rt jwks_request") simp_all
  have b: "fr_ok jwksResp" using d a by (cases "fr_ok jwksResp") simp_all
  obtain jwks where c: "fr_json rt jwksResp = Inr jwks"
    using d a b by (cases "fr_json rt jwksResp") simp_all
  have "jwks_keys jwks = Some keys" using d a b c by simp
  with a b c show ?thesis by blast
qed

lemma verifies_againstD:
  assumes "verifies_against rt token jwk" and s: "split_on (CHR ''.'') token = [h, p, s]"
  shows "\<exists>cryptoKey signatureBytes.
           importKey rt jwk = Inr cryptoKey
           \<and> atob (pad_loop (to_base64 s)) = Some signatureBytes
           \<and> verify rt cryptoKey signatureBytes (utf8_encode (h @ ''.'' @ p)) = Inr True"
proof -
  note d = assms(1) [unfolded verifies_against_def s, simplified]
  obtain cryptoKey where a: "importKey rt jwk = Inr cryptoKey"
    using d by (cases "importKey rt jwk") simp_all
  obtain signatureBytes where b: "atob (pad_loop (to_base64 s)) = Some signatureBytes"
    using d a by (cases "atob (pad_loop (to_base64 s))") simp_all
  have "verify rt cryptoKey signatureBytes (utf8_encode (h @ ''.'' @ p)) = Inr True"
    using d a b by simp
  with a b show ?thesis by blast
qed

lemma first_match_verifiesD:
  assumes v: "first_match_verifies rt token" and s: "split_on (CHR ''.'') token = [h, p, s]"
  shows "\<exists>kid keys jwk.
           header_kid rt h = Inr kid \<and> fetched_keys rt = Some keys
           \<and> find_key rt kid keys = Inr (Some jwk) \<and> truthy (Some jwk)
           \<and> verifies_against rt token jwk"
proof -
  note d = v [unfolded first_match_verifies_def s, simplified]
  obtain kid where a: "header_kid rt h = Inr kid"
    using d by (cases "header_kid rt h") simp_all
  obtain keys where b: "fetched_keys rt = Some keys"
    using d a by (cases "fetched_keys rt") simp_all
  obtain found where c: "find_key rt kid keys = Inr found"
    using d a b by (cases "find_key rt kid keys") simp_all
  obtain jwk where e: "found = Some jwk"
    using d a b c by (cases found) simp_all
  have "truthy (Some jwk) \<and> verifies_against rt token jwk" using d a b c e by simp
  with a b c e show ?thesis by blast
qed

lemma validate_token_verified:
  assumes u: "new_URL rt frontend = Inr u"
    and s: "split_on (CHR ''.'') token = [h, p, s]"
    and v: "first_match_verifies rt token"
  shows "validate_token rt frontend token
           = ([jwks_request],
              then_do (payload_json rt p) (\<lambda>payloadJson.
                Inr (Response_redirect (href (set_hash u (''epic_jwt='' @ token))))))"
proof -
  from first_match_verifiesD [OF v s] obtain kid keys jwk
    where f: "header_kid rt h = Inr kid" "fetched_keys rt = Some keys"
      "find_key rt kid keys = Inr (Some jwk)" "truthy (Some jwk)" "verifies_against rt token jwk"
    by blast
  from fetched_keysD [OF f(2)] obtain jwksResp jwks
    where g: "fetch rt jwks_request = Inr jwksResp" "fr_ok jwksResp"
      "fr_json rt jwksResp = Inr jwks" "jwks_keys jwks = Some keys"
    by blast
  from verifies_againstD [OF f(5) s] obtain cryptoKey signatureBytes
    where k: "importKey rt jwk = Inr cryptoKey"
      "atob (pad_loop (to_base64 s)) = Some signatureBytes"
      "verify rt cryptoKey signatureBytes (utf8_encode (h @ ''.'' @ p)) = Inr True"
    by blast
  show ?thesis
    unfolding validate_token_def verify_with_jwks_def s
    using f g k u by (simp add: then_do_def)
qed


lemma stopped_Inl: "stopped u (Inl e)"
  by (simp add: stopped_def)

lemma stopped_error_redirect:
  "new_URL rt frontend = Inr u \<Longrightarrow> stopped u (error_redirect rt frontend reason)"
  unfolding stopped_def error_redirect_ok by blast

lemma stopped_key_not_found:
  "new_URL rt frontend = Inr u \<Longrightarrow> stopped u (key_not_found rt frontend kid)"
  by (simp add: key_not_found_def stopped_Inl stopped_error_redirect split: option.split)

lemma first_match_verifiesI:
  assumes "split_on (CHR ''.'') token = [h, p, s]" "header_kid rt h = Inr kid"
    "fetch rt jwks_request = Inr jwksResp" "fr_ok jwksResp" "fr_json rt jwksResp = Inr jwks"
    "jwks_keys jwks = Some keys" "find_key rt kid keys = Inr (Some jwk)" "truthy (Some jwk)"
    "importKey rt jwk = Inr cryptoKey" "atob (pad_loop (to_base64 s)) = Some signatureBytes"
    "verify rt cryptoKey signatureBytes (utf8_encode (h @ ''.'' @ p)) = Inr True"
  shows "first_match_verifies rt token"
  unfolding first_match_verifies_def fetched_keys_def verifies_against_def
  using assms by simp

lemma verify_with_jwks_rejected:
  assumes u: "new_URL rt frontend = Inr u"
    and s: "split_on (CHR ''.'') token = [h, p, s]"
    and k: "header_kid rt h = Inr kid"
    and f: "fetch rt jwks_request = Inr jwksResp"
    and v: "\<not> first_match_verifies rt token"
  shows "stopped u (verify_with_jwks rt frontend token h p s kid jwksResp)"
  unfolding verify_with_jwks_def then_do_def
  using v first_match_verifiesI [OF s k f]
  by (auto simp: stopped_Inl stopped_error_redirect [OF u] stopped_key_not_found [OF u]
        split: sum.split option.split) blast

lemma validate_token_rejected:
  assumes u: "new_URL rt frontend = Inr u"
    and v: "\<not> first_match_verifies rt token"
  shows "stopped u (snd (validate_token rt frontend token))"
proof (cases "\<exists>h p s. split_on (CHR ''.'') token = [h, p, s]")
  case False
  then have "validate_token rt frontend token = ([], error_redirect rt frontend ''Invalid JWT format'')"
    unfolding validate_token_def by (auto split: list.split)
  then show ?thesis by (simp add: stopped_error_redirect [OF u])
next
  case True
  then obtain h p s where s: "split_on (CHR ''.'') token = [h, p, s]" by blast
  show ?thesis
  proof (cases "header_kid rt h")
    case (Inl e)
    then show ?thesis by (simp add: validate_token_def s stopped_Inl)
  next
    case k: (Inr kid)
    show ?thesis
    proof (cases "fetch rt jwks_request")
      case (Inl e)
      then show ?thesis by (simp add: validate_token_def s k then_do_def stopped_Inl)
    next
      case (Inr jwksResp)
      then show ?thesis
        using verify_with_jwks_rejected [OF u s k Inr v]
        by (simp add: validate_token_def s k then_do_def)
    qed
  qed
qed

lemma as_stringD: "as_string v = Some s \<Longrightarrow> v = Some (JString s)"
  by (cases v rule: as_string.cases) simp_all

lemma exchanged_tokenI:
  assumes "fetch rt (token_request (EPIC_CLIENT_ID e) (EPIC_CLIENT_SECRET e) (REDIRECT_URI e) code) = Inr tokenResp"
    "fr_ok tokenResp"
    "then_do (fr_json rt tokenResp) (\<lambda>tokenData. property rt tokenData ''access_token'') = Inr jwtToken"
    "as_string jwtToken = Some token" "token \<noteq> []"
  shows "exchanged_token rt e code = Some token"
  unfolding exchanged_token_def using assms by simp

lemma exchanged_tokenD:
  assumes "exchanged_token rt e code = Some token"
  shows "\<exists>tokenResp.
           fetch rt (token_request (EPIC_CLIENT_ID e) (EPIC_CLIENT_SECRET e) (REDIRECT_URI e) code) = Inr tokenResp
           \<and> fr_ok tokenResp
           \<and> then_do (fr_json rt tokenResp) (\<lambda>tokenData. property rt tokenData ''access_token'')
               = Inr (Some (JString token))
           \<and> token \<noteq> []"
proof -
  let ?post = "token_request (EPIC_CLIENT_ID e) (EPIC_CLIENT_SECRET e) (REDIRECT_URI e) code"
  note d = assms [unfolded exchanged_token_def]
  obtain tokenResp where a: "fetch rt ?post = Inr tokenResp"
    using d by (cases "fetch rt ?post") simp_all
  have b: "fr_ok tokenResp" using d a by (cases "fr_ok tokenResp") simp_all
  obtain jwtToken where c: "then_do (fr_json rt tokenResp) (\<lambda>tokenData. property rt tokenData ''access_token'') = Inr jwtToken"
    using d a b
    by (cases "then_do (fr_json rt tokenResp) (\<lambda>tokenData. property rt tokenData ''access_token'')") simp_all
  obtain t where g: "as_string jwtToken = Some t"
    using d a b c by (cases "as_string jwtToken") simp_all
  have h: "t \<noteq> [] \<and> t = token" using d a b c g by (cases "t = []") simp_all
  from as_stringD [OF g] h have "jwtToken = Some (JString token)" by simp
  with a b c h show ?thesis by blast
qed

lemma try_block_exchanged:
  assumes "exchanged_token rt e code = Some token"
  shows "try_block rt e code
           = (token_request (EPIC_CLIENT_ID e) (EPIC_CLIENT_SECRET e) (REDIRECT_URI e) code
                # fst (validate_token rt (FRONTEND_URL e) token),
              snd (validate_token rt (FRONTEND_URL e) token))"
proof -
  from exchanged_tokenD [OF assms] obtain tokenResp where
    f: "fetch rt (token_request (EPIC_CLIENT_ID e) (EPIC_CLIENT_SECRET e) (REDIRECT_URI e) code) = Inr tokenResp"
      "fr_ok tokenResp"
      "then_do (fr_json rt tokenResp) (\<lambda>tokenData. property rt tokenData ''access_token'')
         = Inr (Some (JString token))"
      "token \<noteq> []"
    by blast
  show ?thesis unfolding try_block_def using f by (simp add: Let_def split: prod.split)
qed

lemma stopped_then_do: "(\<And>v. stopped u (f v)) \<Longrightarrow> stopped u (then_do x f)"
  by (cases x) (simp_all add: then_do_def stopped_Inl)

lemma try_block_not_exchanged:
  assumes u: "new_URL rt (FRONTEND_URL e) = Inr u"
    and n: "exchanged_token rt e code = None"
  shows "fst (try_block rt e code)
           = [token_request (EPIC_CLIENT_ID e) (EPIC_CLIENT_SECRET e) (REDIRECT_URI e) code]
         \<and> stopped u (snd (try_block rt e code))"
proof -
  let ?post = "token_request (EPIC_CLIENT_ID e) (EPIC_CLIENT_SECRET e) (REDIRECT_URI e) code"
  let ?data = "\<lambda>tokenResp. then_do (fr_json rt tokenResp) (\<lambda>tokenData. property rt tokenData ''access_token'')"
  show ?thesis
  proof (cases "fetch rt ?post")
    case (Inl err)
    then show ?thesis by (simp add: try_block_def stopped_Inl)
  next
    case f: (Inr tokenResp)
    show ?thesis
    proof (cases "fr_ok tokenResp")
      case False
      then show ?thesis
        using f by (simp add: try_block_def stopped_then_do stopped_error_redirect [OF u])
    next
      case ok: True
      show ?thesis
      proof (cases "?data tokenResp")
        case (Inl err)
        then show ?thesis using f ok by (simp add: try_block_def stopped_Inl)
      next
        case d: (Inr jwtToken)
        show ?thesis
        proof (cases "truthy jwtToken")
          case False
          then show ?thesis
            using f ok d by (simp add: try_block_def stopped_error_redirect [OF u])
        next
          case t: True
          show ?thesis
          proof (cases "as_string jwtToken")
            case None
            then show ?thesis using f ok d t by (simp add: try_block_def stopped_Inl)
          next
            case (Some token)
            from as_stringD [OF Some] t have "token \<noteq> []" by simp
            from exchanged_tokenI [OF f ok d Some this] n show ?thesis by simp
          qed
        qed
      qed
    qed
  qed
qed

lemma callback_with_code:
  assumes c: "map_of (searchParams request) ''code'' = Some code" "code \<noteq> []"
    and u: "new_URL rt (FRONTEND_URL e) = Inr u"
  shows "callback rt e request
           = (fst (try_block rt e code),
              case snd (try_block rt e code) of
                Inr r \<Rightarrow> Inr r
              | Inl error \<Rightarrow>
                  Inr (Response_redirect (href (searchParams_set u ''epic_login_error''
                         (''Server error: ''
                          @ (case error of Error message \<Rightarrow> message | NonError \<Rightarrow> ''Unknown error''))))))"
  unfolding callback_def using c
  by (simp add: error_redirect_ok [OF u] split: prod.split sum.split)

lemma worker_fetch_callback:
  "config_present e \<Longrightarrow> pathname request = ''/callback''
     \<Longrightarrow> worker_fetch rt e request = callback rt e request"
  by (simp add: worker_fetch_def config_present_def)

lemma callback_without_code:
  assumes "map_of (searchParams request) ''code'' = None \<or> map_of (searchParams request) ''code'' = Some []"
  shows "callback rt e request = ([], error_redirect rt (FRONTEND_URL e) ''Missing authorization code'')"
  using assms by (auto simp: callback_def)

lemma first_match_split:
  "first_match_verifies rt token \<Longrightarrow> \<exists>h p s. split_on (CHR ''.'') token = [h, p, s]"
  unfolding first_match_verifies_def by (simp split: list.splits)


lemma stopped_catch:
  assumes "stopped u r"
  shows "\<exists>reason.
           (case r of
              Inr resp \<Rightarrow> Inr resp
            | Inl error \<Rightarrow>
                Inr (Response_redirect (href (searchParams_set u ''epic_login_error''
                       (''Server error: ''
                        @ (case error of Error message \<Rightarrow> message | NonError \<Rightarrow> ''Unknown error''))))))
           = (Inr (Response_redirect (href (searchParams_set u ''epic_login_error'' reason)))
                :: thrown + response)"
  using assms unfolding stopped_def by (cases r) auto

lemma callback_success:
  assumes c: "map_of (searchParams request) ''code'' = Some code" "code \<noteq> []"
    and u: "new_URL rt (FRONTEND_URL e) = Inr u"
    and x: "exchanged_token rt e code = Some token"
    and v: "first_match_verifies rt token"
    and r: "payload_readable rt token"
  shows "callback rt e request
           = ([token_request (EPIC_CLIENT_ID e) (EPIC_CLIENT_SECRET e) (REDIRECT_URI e) code, jwks_request],
              Inr (Response_redirect (href (set_hash u (''epic_jwt='' @ token)))))"
proof -
  from first_match_split [OF v] obtain h p s where s: "split_on (CHR ''.'') token = [h, p, s]"
    by blast
  from r s obtain payloadJson where p: "payload_json rt p = Inr payloadJson"
    unfolding payload_readable_def by (cases "payload_json rt p") simp_all
  show ?thesis
    unfolding callback_with_code [OF c u] try_block_exchanged [OF x]
      validate_token_verified [OF u s v]
    by (simp add: p then_do_def)
qed

lemma callback_payload_unreadable:
  assumes c: "map_of (searchParams request) ''code'' = Some code" "code \<noteq> []"
    and u: "new_URL rt (FRONTEND_URL e) = Inr u"
    and x: "exchanged_token rt e code = Some token"
    and v: "first_match_verifies rt token"
    and r: "\<not> payload_readable rt token"
  shows "\<exists>reason. callback rt e request
           = ([token_request (EPIC_CLIENT_ID e) (EPIC_CLIENT_SECRET e) (REDIRECT_URI e) code, jwks_request],
              Inr (Response_redirect (href (searchParams_set u ''epic_login_error''
                     (''Server error: '' @ reason)))))"
proof -
  from first_match_split [OF v] obtain h p s where s: "split_on (CHR ''.'') token = [h, p, s]"
    by blast
  from r s obtain err where p: "payload_json rt p = Inl err"
    unfolding payload_readable_def by (cases "payload_json rt p") simp_all
  show ?thesis
    unfolding callback_with_code [OF c u] try_block_exchanged [OF x]
      validate_token_verified [OF u s v]
    by (simp add: p then_do_def) blast
qed

lemma callback_failure:
  assumes c: "map_of (searchParams request) ''code'' = Some code" "code \<noteq> []"
    and u: "new_URL rt (FRONTEND_URL e) = Inr u"
    and n: "\<not> (\<exists>token. exchanged_token rt e code = Some token \<and> first_match_verifies rt token
                  \<and> payload_readable rt token)"
  shows "\<exists>reason. snd (callback rt e request)
           = Inr (Response_redirect (href (searchParams_set u ''epic_login_error'' reason)))"
proof (cases "exchanged_token rt e code")
  case None
  from try_block_not_exchanged [OF u None] have "stopped u (snd (try_block rt e code))" by simp
  from stopped_catch [OF this] show ?thesis
    unfolding callback_with_code [OF c u] by simp
next
  case (Some token)
  show ?thesis
  proof (cases "first_match_verifies rt token")
    case False
    from validate_token_rejected [OF u False]
    have "stopped u (snd (try_block rt e code))"
      unfolding try_block_exchanged [OF Some] by simp
    from stopped_catch [OF this] show ?thesis
      unfolding callback_with_code [OF c u] by simp
  next
    case True
    with n Some have "\<not> payload_readable rt token" by simp
    from callback_payload_unreadable [OF c u Some True this] show ?thesis by auto
  qed
qed

lemma callback_no_code:
  assumes "map_of (searchParams request) ''code'' = None \<or> map_of (searchParams request) ''code'' = Some []"
    and u: "new_URL rt (FRONTEND_URL e) = Inr u"
  shows "callback rt e request
           = ([], Inr (Response_redirect (href (searchParams_set u ''epic_login_error''
                         ''Missing authorization code''))))"
  unfolding callback_without_code [OF assms(1)] error_redirect_ok [OF u] ..








lemma fragment_encode_safe:
  "(\<And>c. c \<in> set s \<Longrightarrow> \<not> in_fragment_set c) \<Longrightarrow> fragment_encode s = s"
proof (induction s)
  case Nil
  then show ?case by (simp add: fragment_encode_def)
next
  case (Cons a s)
  have a: "\<not> in_fragment_set a" using Cons.prems by simp
  then have "a \<noteq> CHR 0x09 \<and> a \<noteq> CHR 0x0A \<and> a \<noteq> CHR 0x0D"
    by (auto simp: in_fragment_set_def)
  moreover have "fragment_encode s = s" using Cons by simp
  ultimately show ?case using a by (simp add: fragment_encode_def)
qed

lemma fragment_encode_append_safe:
  "(\<And>c. c \<in> set token \<Longrightarrow> \<not> in_fragment_set c) \<Longrightarrow>
   fragment_encode (''epic_jwt='' @ token) = ''epic_jwt='' @ token"
proof -
  assume t: "\<And>c. c \<in> set token \<Longrightarrow> \<not> in_fragment_set c"
  have "\<not> in_fragment_set c" if "c \<in> set (''epic_jwt='' @ token)" for c
    using that t by (auto simp: in_fragment_set_def)
  then show ?thesis by (rule fragment_encode_safe)
qed

lemma href_success_plain:
  "url_query u = None \<Longrightarrow>
   href (set_hash u (''epic_jwt='' @ token)) = url_base u @ ''#'' @ fragment_encode (''epic_jwt='' @ token)"
  by (simp add: href_def set_hash_def)

section \<open>Configuration\<close>

text \<open>
  Claim C9. Whatever the request and its path, when one of the four required settings
  is absent the handler answers with a response of status 500 that carries no
  \<open>Location\<close> and whose body starts with \<open>Server configuration error:\<close>, sends
  nothing, and the answer is the same for every request and every runtime: nothing of
  the request has been looked at.
\<close>

theorem config_missing_500:
  assumes "\<not> config_present e"
  shows "fst (worker_fetch rt e request) = []
         \<and> (\<exists>r. snd (worker_fetch rt e request) = Inr r \<and> resp_status r = 500
                 \<and> map_of (resp_headers r) ''Location'' = None
                 \<and> take 27 (resp_body r) = ''Server configuration error:'')
         \<and> worker_fetch rt e request = worker_fetch rt' e request'"
  using assms by (auto simp: worker_fetch_def config_present_def)

theorem config_missing_500_witness:
  "\<not> config_present (demo_env\<lparr>FRONTEND_URL := []\<rparr>)
   \<and> worker_fetch (demo_runtime 200 [] []) (demo_env\<lparr>FRONTEND_URL := []\<rparr>) (demo_callback ''abc'')
       = ([], Inr \<lparr>resp_status = 500, resp_headers = [],
                   resp_body = ''Server configuration error: Missing frontend URL.''\<rparr>)
   \<and> worker_fetch (demo_runtime 200 [] []) (demo_env\<lparr>FRONTEND_URL := []\<rparr>) (demo_callback ''abc'')
       = worker_fetch (demo_runtime 200 [] []) (demo_env\<lparr>FRONTEND_URL := []\<rparr>)
           \<lparr>pathname = ''/'', searchParams = []\<rparr>"
proof -
  have h: "\<not> config_present (demo_env\<lparr>FRONTEND_URL := []\<rparr>)"
    by (simp add: config_present_def demo_env_def)
  have v: "worker_fetch (demo_runtime 200 [] []) (demo_env\<lparr>FRONTEND_URL := []\<rparr>) (demo_callback ''abc'')
       = ([], Inr \<lparr>resp_status = 500, resp_headers = [],
                   resp_body = ''Server configuration error: Missing frontend URL.''\<rparr>)"
    by (simp add: worker_fetch_def demo_env_def)
  from config_missing_500 [OF h, of "demo_runtime 200 [] []" "demo_callback ''abc''"
      "demo_runtime 200 [] []" "\<lparr>pathname = ''/'', searchParams = []\<rparr>"] h v
  show ?thesis by simp
qed

section \<open>A failed token exchange\<close>




lemma href_error_plain:
  "url_search_params u = [] \<Longrightarrow> url_fragment u = None \<Longrightarrow>
   href (searchParams_set u ''epic_login_error'' reason)
     = url_base u @ ''?epic_login_error='' @ form_encode reason"
proof -
  have "form_encode ''epic_login_error'' = ''epic_login_error''" by code_simp
  then show "url_search_params u = [] \<Longrightarrow> url_fragment u = None \<Longrightarrow> ?thesis"
    by (simp add: href_def searchParams_set_def Let_def)
qed





section \<open>The callback without a code\<close>





section \<open>A token that is not three segments\<close>



section \<open>No value thrown by the callback\<close>

text \<open>
  Claim C3, as the code has it. With the four settings present and a base URL the URL
  parser accepts, the callback route answers every request, whatever the runtime and
  the provider do, with a 302 redirect: no thrown value leaves the handler.
\<close>

theorem callback_never_throws:
  assumes "config_present e" and "pathname request = ''/callback''"
    and u: "new_URL rt (FRONTEND_URL e) = Inr u"
  shows "\<exists>location. snd (worker_fetch rt e request) = Inr (Response_redirect location)"
proof (cases "map_of (searchParams request) ''code'' = None \<or> map_of (searchParams request) ''code'' = Some []")
  case True
  from callback_no_code [OF True u] assms(1,2) show ?thesis
    by (auto simp: worker_fetch_callback)
next
  case False
  then obtain code where c: "map_of (searchParams request) ''code'' = Some code" "code \<noteq> []"
    by auto
  show ?thesis
  proof (cases "\<exists>token. exchanged_token rt e code = Some token \<and> first_match_verifies rt token
                  \<and> payload_readable rt token")
    case True
    then obtain token where "exchanged_token rt e code = Some token" "first_match_verifies rt token"
      "payload_readable rt token" by blast
    from callback_success [OF c u this] assms(1,2) show ?thesis
      by (auto simp: worker_fetch_callback)
  next
    case False
    from callback_failure [OF c u False] assms(1,2) show ?thesis
      by (auto simp: worker_fetch_callback)
  qed
qed

theorem callback_never_throws_witness:
  "config_present demo_env
   \<and> new_URL (demo_runtime 200 ''a.b'' []) (FRONTEND_URL demo_env) = Inr demo_url
   \<and> (\<exists>location. snd (worker_fetch (demo_runtime 200 ''a.b'' []) demo_env (demo_callback ''abc''))
                     = Inr (Response_redirect location))"
proof -
  have c: "config_present demo_env" by (simp add: config_present_def demo_env_def)
  have p: "pathname (demo_callback ''abc'') = ''/callback''" by (simp add: demo_callback_def)
  have u: "new_URL (demo_runtime 200 ''a.b'' []) (FRONTEND_URL demo_env) = Inr demo_url"
    by (simp add: demo_runtime_def demo_env_def)
  from callback_never_throws [OF c p u] c u show ?thesis by simp
qed

theorem callback_never_throws_counterexample:
  "config_present (demo_env\<lparr>FRONTEND_URL := ''frontend''\<rparr>)
   \<and> snd (worker_fetch (demo_runtime 200 ''a.b'' []) (demo_env\<lparr>FRONTEND_URL := ''frontend''\<rparr>)
            \<lparr>pathname = ''/callback'', searchParams = []\<rparr>)
       = Inl (Error ''Invalid URL'')
   \<and> snd (worker_fetch (demo_runtime 200 ''a.b'' []) (demo_env\<lparr>FRONTEND_URL := ''frontend''\<rparr>)
            (demo_callback ''abc''))
       = Inl (Error ''Invalid URL'')"
  by code_simp

section \<open>The payload after the signature\<close>

text \<open>
  Claim C8, as the code has it. With a base URL the URL parser accepts, for a token
  whose signature verifies against the matched key, the handler issues the success
  redirect carrying the token exactly when the payload segment base64url-decodes and
  parses as JSON; when it does not, the
  exception is caught by the catch-all and the handler redirects with
  \<open>epic_login_error\<close> set to \<open>Server error: ...\<close>. Both requests have been sent.
\<close>

theorem payload_decides_after_verification:
  assumes "config_present e" and "pathname request = ''/callback''"
    and c: "map_of (searchParams request) ''code'' = Some code" "code \<noteq> []"
    and u: "new_URL rt (FRONTEND_URL e) = Inr u"
    and x: "exchanged_token rt e code = Some token"
    and v: "first_match_verifies rt token"
  shows "(payload_readable rt token \<longrightarrow>
            worker_fetch rt e request
              = ([token_request (EPIC_CLIENT_ID e) (EPIC_CLIENT_SECRET e) (REDIRECT_URI e) code,
                  jwks_request],
                 Inr (Response_redirect (href (set_hash u (''epic_jwt='' @ token))))))
         \<and> (\<not> payload_readable rt token \<longrightarrow>
              (\<exists>reason. worker_fetch rt e request
                 = ([token_request (EPIC_CLIENT_ID e) (EPIC_CLIENT_SECRET e) (REDIRECT_URI e) code,
                     jwks_request],
                    Inr (Response_redirect (href (searchParams_set u ''epic_login_error''
                           (''Server error: '' @ reason)))))))"
  using callback_success [OF c u x v] callback_payload_unreadable [OF c u x v] assms(1,2)
  by (simp add: worker_fetch_callback)

theorem payload_decides_after_verification_witness:
  "exchanged_token (demo_runtime 200 demo_token [demo_key ''good'']) demo_env ''abc'' = Some demo_token
   \<and> first_match_verifies (demo_runtime 200 demo_token [demo_key ''good'']) demo_token
   \<and> payload_readable (demo_runtime 200 demo_token [demo_key ''good'']) demo_token
   \<and> worker_fetch (demo_runtime 200 demo_token [demo_key ''good'']) demo_env (demo_callback ''abc'')
       = ([token_request ''client'' ''secret'' ''https://epic-eos-auth-worker.tpin.workers.dev/callback'' ''abc'',
           jwks_request],
          Inr (Response_redirect
                ''https://epic-auth-login-boilerplate.pages.dev/#epic_jwt=eyJhbGciOiJSUzI1NiIsImtpZCI6ImsxIn0.e30.c2ln''))"
proof -
  let ?rt = "demo_runtime 200 demo_token [demo_key ''good'']"
  have c: "config_present demo_env" by (simp add: config_present_def demo_env_def)
  have p: "pathname (demo_callback ''abc'') = ''/callback''" by (simp add: demo_callback_def)
  have m: "map_of (searchParams (demo_callback ''abc'')) ''code'' = Some ''abc''"
    by (simp add: demo_callback_def)
  have n: "''abc'' \<noteq> []" by simp
  have u: "new_URL ?rt (FRONTEND_URL demo_env) = Inr demo_url"
    by (simp add: demo_runtime_def demo_env_def)
  have x: "exchanged_token ?rt demo_env ''abc'' = Some demo_token" by code_simp
  have v: "first_match_verifies ?rt demo_token" by code_simp
  have r: "payload_readable ?rt demo_token" by code_simp
  have h: "href (set_hash demo_url (''epic_jwt='' @ demo_token))
             = ''https://epic-auth-login-boilerplate.pages.dev/#epic_jwt=eyJhbGciOiJSUzI1NiIsImtpZCI6ImsxIn0.e30.c2ln''"
    by code_simp
  from payload_decides_after_verification [OF c p m n u x v] r
  have w: "worker_fetch ?rt demo_env (demo_callback ''abc'')
             = ([token_request (EPIC_CLIENT_ID demo_env) (EPIC_CLIENT_SECRET demo_env)
                   (REDIRECT_URI demo_env) ''abc'', jwks_request],
                Inr (Response_redirect (href (set_hash demo_url (''epic_jwt='' @ demo_token)))))"
    by blast
  show ?thesis unfolding w h using x v r by (simp add: demo_env_def)
qed

theorem payload_decides_after_verification_counterexample:
  "exchanged_token (demo_runtime 200 demo_token_text_payload [demo_key ''good'']) demo_env ''abc''
     = Some demo_token_text_payload
   \<and> first_match_verifies (demo_runtime 200 demo_token_text_payload [demo_key ''good''])
        demo_token_text_payload
   \<and> snd (worker_fetch (demo_runtime 200 demo_token_text_payload [demo_key ''good'']) demo_env
            (demo_callback ''abc''))
       = Inr (Response_redirect
                ''https://epic-auth-login-boilerplate.pages.dev/?epic_login_error=Server+error%3A+Unexpected+token'')"
  by code_simp

section \<open>The redirect contract\<close>

text \<open>
  Claim C2, as the code has it. On the callback route, with the four settings present
  and a base URL without query and fragment: when the signature verifies against the
  matched key and the payload segment decodes and parses as JSON, the handler answers
  with a 302 redirect to the base URL followed by \<open>#\<close> and the fragment the \<open>hash\<close>
  setter writes for \<open>epic_jwt=token\<close>, which is \<open>#epic_jwt=token\<close> with the token
  unmodified when the token has no character of the fragment percent-encode set (as
  for base64url segments joined by dots); in every other case the answer is a 302
  redirect to the base URL followed by \<open>?epic_login_error=\<close> and the form-encoded
  reason.
\<close>

theorem redirect_contract:
  assumes "config_present e" and "pathname request = ''/callback''"
    and u: "new_URL rt (FRONTEND_URL e) = Inr u"
    and plain: "url_query u = None" "url_search_params u = []" "url_fragment u = None"
  shows "(\<forall>code token.
            map_of (searchParams request) ''code'' = Some code \<and> code \<noteq> []
            \<and> exchanged_token rt e code = Some token \<and> first_match_verifies rt token
            \<and> payload_readable rt token \<longrightarrow>
            snd (worker_fetch rt e request)
              = Inr (Response_redirect (url_base u @ ''#'' @ fragment_encode (''epic_jwt='' @ token)))
            \<and> ((\<forall>c \<in> set token. \<not> in_fragment_set c) \<longrightarrow>
                 snd (worker_fetch rt e request)
                   = Inr (Response_redirect (url_base u @ ''#epic_jwt='' @ token))))
         \<and> (\<not> (\<exists>code token.
                   map_of (searchParams request) ''code'' = Some code \<and> code \<noteq> []
                   \<and> exchanged_token rt e code = Some token \<and> first_match_verifies rt token
                   \<and> payload_readable rt token) \<longrightarrow>
              (\<exists>reason. snd (worker_fetch rt e request)
                 = Inr (Response_redirect (url_base u @ ''?epic_login_error='' @ form_encode reason))))"
proof (intro conjI allI impI)
  fix code token
  assume a: "map_of (searchParams request) ''code'' = Some code \<and> code \<noteq> []
            \<and> exchanged_token rt e code = Some token \<and> first_match_verifies rt token
            \<and> payload_readable rt token"
  then have c: "map_of (searchParams request) ''code'' = Some code" "code \<noteq> []"
    and x: "exchanged_token rt e code = Some token" and v: "first_match_verifies rt token"
    and r: "payload_readable rt token" by simp_all
  from callback_success [OF c u x v r] assms(1,2)
  show g: "snd (worker_fetch rt e request)
          = Inr (Response_redirect (url_base u @ ''#'' @ fragment_encode (''epic_jwt='' @ token)))"
    by (simp only: worker_fetch_callback href_success_plain [OF plain(1)] snd_conv)
  assume "\<forall>c \<in> set token. \<not> in_fragment_set c"
  then have "fragment_encode (''epic_jwt='' @ token) = ''epic_jwt='' @ token"
    by (intro fragment_encode_append_safe) simp
  with g show "snd (worker_fetch rt e request)
          = Inr (Response_redirect (url_base u @ ''#epic_jwt='' @ token))"
    by simp
next
  assume n: "\<not> (\<exists>code token.
                   map_of (searchParams request) ''code'' = Some code \<and> code \<noteq> []
                   \<and> exchanged_token rt e code = Some token \<and> first_match_verifies rt token
                   \<and> payload_readable rt token)"
  show "\<exists>reason. snd (worker_fetch rt e request)
                 = Inr (Response_redirect (url_base u @ ''?epic_login_error='' @ form_encode reason))"
  proof (cases "map_of (searchParams request) ''code'' = None \<or> map_of (searchParams request) ''code'' = Some []")
    case True
    from callback_no_code [OF True u] assms(1,2)
    have "snd (worker_fetch rt e request)
            = Inr (Response_redirect (url_base u @ ''?epic_login_error='' @ form_encode ''Missing authorization code''))"
      by (simp only: worker_fetch_callback href_error_plain [OF plain(2,3)] snd_conv)
    then show ?thesis by blast
  next
    case False
    then obtain code where c: "map_of (searchParams request) ''code'' = Some code" "code \<noteq> []"
      by auto
    from n c have "\<not> (\<exists>token. exchanged_token rt e code = Some token \<and> first_match_verifies rt token
                  \<and> payload_readable rt token)" by blast
    from callback_failure [OF c u this] obtain reason where
      "snd (callback rt e request)
         = Inr (Response_redirect (href (searchParams_set u ''epic_login_error'' reason)))"
      by blast
    with assms(1,2) have "snd (worker_fetch rt e request)
            = Inr (Response_redirect (url_base u @ ''?epic_login_error='' @ form_encode reason))"
      by (simp only: worker_fetch_callback href_error_plain [OF plain(2,3)])
    then show ?thesis by blast
  qed
qed

theorem redirect_contract_witness:
  "config_present demo_env
   \<and> new_URL (demo_runtime 200 demo_token [demo_key ''good'']) (FRONTEND_URL demo_env) = Inr demo_url
   \<and> exchanged_token (demo_runtime 200 demo_token [demo_key ''good'']) demo_env ''abc'' = Some demo_token
   \<and> first_match_verifies (demo_runtime 200 demo_token [demo_key ''good'']) demo_token
   \<and> payload_readable (demo_runtime 200 demo_token [demo_key ''good'']) demo_token
   \<and> snd (worker_fetch (demo_runtime 200 demo_token [demo_key ''good'']) demo_env (demo_callback ''abc''))
       = Inr (Response_redirect (url_base demo_url @ ''#epic_jwt='' @ demo_token))"
proof -
  let ?rt = "demo_runtime 200 demo_token [demo_key ''good'']"
  have c: "config_present demo_env" by (simp add: config_present_def demo_env_def)
  have p: "pathname (demo_callback ''abc'') = ''/callback''" by (simp add: demo_callback_def)
  have m: "map_of (searchParams (demo_callback ''abc'')) ''code'' = Some ''abc''"
    by (simp add: demo_callback_def)
  have u: "new_URL ?rt (FRONTEND_URL demo_env) = Inr demo_url"
    by (simp add: demo_runtime_def demo_env_def)
  have q: "url_query demo_url = None" "url_search_params demo_url = []" "url_fragment demo_url = None"
    by (simp_all add: demo_url_def)
  have x: "exchanged_token ?rt demo_env ''abc'' = Some demo_token" by code_simp
  have v: "first_match_verifies ?rt demo_token" by code_simp
  have r: "payload_readable ?rt demo_token" by code_simp
  have s: "\<forall>c \<in> set demo_token. \<not> in_fragment_set c" by code_simp
  from redirect_contract [OF c p u q] m x v r s
  have "snd (worker_fetch ?rt demo_env (demo_callback ''abc''))
          = Inr (Response_redirect (url_base demo_url @ ''#epic_jwt='' @ demo_token))"
    by blast
  with c u x v r show ?thesis by blast
qed

theorem redirect_contract_counterexample:
  "exchanged_token (demo_runtime 200 demo_token_raw_payload [demo_key ''good'']) demo_env ''abc''
     = Some demo_token_raw_payload
   \<and> first_match_verifies (demo_runtime 200 demo_token_raw_payload [demo_key ''good''])
        demo_token_raw_payload
   \<and> snd (worker_fetch (demo_runtime 200 demo_token_raw_payload [demo_key ''good'']) demo_env
            (demo_callback ''abc''))
       \<noteq> Inr (Response_redirect (FRONTEND_URL demo_env @ ''#epic_jwt='' @ demo_token_raw_payload))
   \<and> snd (worker_fetch (demo_runtime 200 demo_token_raw_payload [demo_key ''good'']) demo_env
            (demo_callback ''abc''))
       = Inr (Response_redirect
                ''https://epic-auth-login-boilerplate.pages.dev/?epic_login_error=Server+error%3A+Invalid+base64url+data%3A+Invalid+character'')"
  by code_simp

section \<open>When the token is forwarded\<close>








section \<open>The body of the token request\<close>

lemma split_on_first:
  "sep \<notin> set a \<Longrightarrow> split_on sep (a @ sep # rest) = a # split_on sep rest"
  by (induction a) auto

lemma length_percent_decode: "length (percent_decode s) \<le> length s"
proof (induction s rule: percent_decode.induct)
  case (1 c h l rest)
  show ?case
  proof (cases "c = CHR ''%''")
    case False
    with 1 show ?thesis by simp
  next
    case True
    show ?thesis
    proof (cases "hex_value h")
      case None
      with True 1 show ?thesis by simp
    next
      case a: (Some a)
      show ?thesis
      proof (cases "hex_value l")
        case None
        with True a 1 show ?thesis by simp
      next
        case (Some b)
        from 1 True a Some have "length (percent_decode rest) \<le> length rest" by blast
        with True a Some show ?thesis by simp
      qed
    qed
  qed
qed simp_all

lemma length_form_decode: "length (form_decode s) \<le> length s"
  using length_percent_decode [of "replace_all (CHR ''+'') (CHR '' '') s"]
  by (simp add: form_decode_def replace_all_def)

lemma percent_decode_plain: "CHR ''%'' \<notin> set s \<Longrightarrow> percent_decode s = s"
  by (induction s rule: percent_decode.induct) auto

lemma form_decode_plain: "CHR ''%'' \<notin> set s \<Longrightarrow> CHR ''+'' \<notin> set s \<Longrightarrow> form_decode s = s"
proof -
  assume p: "CHR ''%'' \<notin> set s" and q: "CHR ''+'' \<notin> set s"
  from q have "replace_all (CHR ''+'') (CHR '' '') s = s"
    by (induction s) (auto simp: replace_all_def)
  with p show ?thesis by (simp add: form_decode_def percent_decode_plain)
qed

lemma form_parse_pair_code: "form_parse_pair (''code='' @ v) = (''code'', form_decode v)"
proof -
  have "form_decode ''code'' = ''code''" by code_simp
  then show ?thesis by (simp add: form_parse_pair_def)
qed

lemma body_code_parameter:
  "map_of (form_parse (''grant_type=authorization_code&code='' @ code @ ''&redirect_uri='' @ uri)) ''code''
     = Some (form_decode (takeWhile (\<lambda>c. c \<noteq> CHR ''&'') code))"
proof -
  let ?c1 = "takeWhile (\<lambda>c. c \<noteq> CHR ''&'') code"
  let ?c2 = "dropWhile (\<lambda>c. c \<noteq> CHR ''&'') code"
  obtain tail where t: "?c2 @ ''&redirect_uri='' @ uri = CHR ''&'' # tail"
  proof (cases ?c2)
    case Nil
    then show ?thesis using that [of "''redirect_uri='' @ uri"] by simp
  next
    case (Cons a list)
    then have "a = CHR ''&''" using hd_dropWhile [of "\<lambda>c. c \<noteq> CHR ''&''" code] by auto
    with Cons show ?thesis using that by simp
  qed
  have "code = ?c1 @ ?c2" by simp
  then have "''grant_type=authorization_code&code='' @ code @ ''&redirect_uri='' @ uri
          = ''grant_type=authorization_code'' @ CHR ''&'' # ((''code='' @ ?c1) @ (?c2 @ ''&redirect_uri='' @ uri))"
    by (metis append.assoc append_Cons append_Nil)
  also have "\<dots> = ''grant_type=authorization_code'' @ CHR ''&'' # ((''code='' @ ?c1) @ CHR ''&'' # tail)"
    by (simp only: t)
  finally have b: "''grant_type=authorization_code&code='' @ code @ ''&redirect_uri='' @ uri
          = ''grant_type=authorization_code'' @ CHR ''&'' # ((''code='' @ ?c1) @ CHR ''&'' # tail)" .
  have n1: "CHR ''&'' \<notin> set ''grant_type=authorization_code''" by simp
  have n2: "CHR ''&'' \<notin> set (''code='' @ ?c1)"
    using set_takeWhileD [of "CHR ''&''" "\<lambda>c. c \<noteq> CHR ''&''" code] by auto
  have g: "form_parse_pair ''grant_type=authorization_code'' = (''grant_type'', ''authorization_code'')"
    by code_simp
  have ne: "''code='' @ ?c1 \<noteq> []" by simp
  have "form_parse (''grant_type=authorization_code&code='' @ code @ ''&redirect_uri='' @ uri)
          = (''grant_type'', ''authorization_code'') # (''code'', form_decode ?c1)
            # map form_parse_pair (filter (\<lambda>piece. piece \<noteq> []) (split_on (CHR ''&'') tail))"
    unfolding b form_parse_def split_on_first [OF n1] split_on_first [OF n2]
    using g form_parse_pair_code [of ?c1] by simp
  then show ?thesis by simp
qed

lemma fst_try_block:
  "\<exists>rest. fst (try_block rt e code)
            = token_request (EPIC_CLIENT_ID e) (EPIC_CLIENT_SECRET e) (REDIRECT_URI e) code # rest"
  unfolding try_block_def Let_def
  by (auto split: sum.split option.split prod.split)

lemma fst_callback:
  "map_of (searchParams request) ''code'' = Some code \<Longrightarrow> code \<noteq> [] \<Longrightarrow>
   fst (callback rt e request) = fst (try_block rt e code)"
  by (simp add: callback_def split: prod.split sum.split)

text \<open>
  Claim C10, as the code has it. Whenever the callback has a non-empty code, the first
  request the handler sends is the token request, and its body is the concatenation
  \<open>grant_type=authorization_code&code=\<close>, the code as it is, \<open>&redirect_uri=\<close>, and
  \<open>encodeURIComponent(REDIRECT_URI)\<close>. A form parser reads from that body, as the
  \<open>code\<close> parameter, the part of the code before its first \<open>&\<close> with \<open>+\<close> and
  \<open>%XY\<close> decoded: for every code containing \<open>&\<close> this is not the code, while a code
  without \<open>&\<close>, \<open>+\<close> and \<open>%\<close> (it may contain \<open>=\<close>) is read back unchanged.
\<close>

theorem token_request_body:
  assumes "config_present e" and "pathname request = ''/callback''"
    and c: "map_of (searchParams request) ''code'' = Some code" "code \<noteq> []"
  shows "(\<exists>rest. fst (worker_fetch rt e request)
                   = token_request (EPIC_CLIENT_ID e) (EPIC_CLIENT_SECRET e) (REDIRECT_URI e) code # rest)
         \<and> req_body (token_request (EPIC_CLIENT_ID e) (EPIC_CLIENT_SECRET e) (REDIRECT_URI e) code)
             = Some (''grant_type=authorization_code&code='' @ code @ ''&redirect_uri=''
                     @ encodeURIComponent (REDIRECT_URI e))
         \<and> map_of (form_parse (''grant_type=authorization_code&code='' @ code @ ''&redirect_uri=''
                                 @ encodeURIComponent (REDIRECT_URI e))) ''code''
             = Some (form_decode (takeWhile (\<lambda>c. c \<noteq> CHR ''&'') code))
         \<and> (CHR ''&'' \<in> set code \<longrightarrow>
               map_of (form_parse (''grant_type=authorization_code&code='' @ code @ ''&redirect_uri=''
                                   @ encodeURIComponent (REDIRECT_URI e))) ''code''
                 \<noteq> Some code)
         \<and> (CHR ''&'' \<notin> set code \<and> CHR ''+'' \<notin> set code \<and> CHR ''%'' \<notin> set code \<longrightarrow>
               map_of (form_parse (''grant_type=authorization_code&code='' @ code @ ''&redirect_uri=''
                                   @ encodeURIComponent (REDIRECT_URI e))) ''code''
                 = Some code)"
proof (intro conjI impI)
  show "\<exists>rest. fst (worker_fetch rt e request)
                   = token_request (EPIC_CLIENT_ID e) (EPIC_CLIENT_SECRET e) (REDIRECT_URI e) code # rest"
    using assms(1,2) fst_try_block [of rt e code]
    by (simp add: worker_fetch_callback fst_callback [OF c])
  show "req_body (token_request (EPIC_CLIENT_ID e) (EPIC_CLIENT_SECRET e) (REDIRECT_URI e) code)
             = Some (''grant_type=authorization_code&code='' @ code @ ''&redirect_uri=''
                     @ encodeURIComponent (REDIRECT_URI e))"
    by (simp add: token_request_def)
  show "map_of (form_parse (''grant_type=authorization_code&code='' @ code @ ''&redirect_uri=''
                                 @ encodeURIComponent (REDIRECT_URI e))) ''code''
             = Some (form_decode (takeWhile (\<lambda>c. c \<noteq> CHR ''&'') code))"
    by (rule body_code_parameter)
next
  assume a: "CHR ''&'' \<in> set code"
  then have "length (takeWhile (\<lambda>c. c \<noteq> CHR ''&'') code) < length code"
    by (induction code) auto
  with length_form_decode [of "takeWhile (\<lambda>c. c \<noteq> CHR ''&'') code"]
  have "form_decode (takeWhile (\<lambda>c. c \<noteq> CHR ''&'') code) \<noteq> code" by auto
  then show "map_of (form_parse (''grant_type=authorization_code&code='' @ code @ ''&redirect_uri=''
                                   @ encodeURIComponent (REDIRECT_URI e))) ''code''
                 \<noteq> Some code"
    by (simp only: body_code_parameter) simp
next
  assume a: "CHR ''&'' \<notin> set code \<and> CHR ''+'' \<notin> set code \<and> CHR ''%'' \<notin> set code"
  then have "\<forall>x \<in> set code. x \<noteq> CHR ''&''" by auto
  then have t: "takeWhile (\<lambda>c. c \<noteq> CHR ''&'') code = code" by (simp add: takeWhile_eq_all_conv)
  have "form_decode (takeWhile (\<lambda>c. c \<noteq> CHR ''&'') code) = code"
    unfolding t using a by (simp add: form_decode_plain)
  then show "map_of (form_parse (''grant_type=authorization_code&code='' @ code @ ''&redirect_uri=''
                                   @ encodeURIComponent (REDIRECT_URI e))) ''code''
                 = Some code"
    by (simp only: body_code_parameter)
qed

theorem token_request_body_witness:
  "config_present demo_env
   \<and> map_of (searchParams (demo_callback ''a&b'')) ''code'' = Some ''a&b''
   \<and> CHR ''&'' \<in> set ''a&b''
   \<and> map_of (form_parse (''grant_type=authorization_code&code='' @ ''a&b'' @ ''&redirect_uri=''
                           @ encodeURIComponent (REDIRECT_URI demo_env))) ''code''
       \<noteq> Some ''a&b''
   \<and> map_of (form_parse (''grant_type=authorization_code&code='' @ ''a&b'' @ ''&redirect_uri=''
                           @ encodeURIComponent (REDIRECT_URI demo_env))) ''code''
       = Some ''a''"
proof -
  have c: "config_present demo_env" by (simp add: config_present_def demo_env_def)
  have p: "pathname (demo_callback ''a&b'') = ''/callback''" by (simp add: demo_callback_def)
  have m: "map_of (searchParams (demo_callback ''a&b'')) ''code'' = Some ''a&b''"
    by (simp add: demo_callback_def)
  have n: "''a&b'' \<noteq> []" by simp
  have a: "CHR ''&'' \<in> set ''a&b''" by simp
  have d: "form_decode (takeWhile (\<lambda>c. c \<noteq> CHR ''&'') ''a&b'') = ''a''" by code_simp
  from token_request_body [OF c p m n, of "demo_runtime 200 ''x'' []"] a
  have "map_of (form_parse (''grant_type=authorization_code&code='' @ ''a&b'' @ ''&redirect_uri=''
                           @ encodeURIComponent (REDIRECT_URI demo_env))) ''code''
          \<noteq> Some ''a&b''
        \<and> map_of (form_parse (''grant_type=authorization_code&code='' @ ''a&b'' @ ''&redirect_uri=''
                           @ encodeURIComponent (REDIRECT_URI demo_env))) ''code''
          = Some (form_decode (takeWhile (\<lambda>c. c \<noteq> CHR ''&'') ''a&b''))"
    by blast
  with c m a show ?thesis unfolding d by blast
qed

theorem token_request_body_counterexample:
  "CHR ''='' \<in> set ''a=b''
   \<and> form_parse (''grant_type=authorization_code&code='' @ ''a=b'' @ ''&redirect_uri=''
                   @ encodeURIComponent (REDIRECT_URI demo_env))
       = [(''grant_type'', ''authorization_code''), (''code'', ''a=b''),
          (''redirect_uri'', REDIRECT_URI demo_env)]"
  by code_simp

end
